theory Spec2Isabelle
  imports Main "HOL-Library.Char_ord" "HOL-Library.List_Lexorder"
begin

section \<open>Ardent: a script that builds Ardour on Windows\<close>

text \<open>
  The script \<^verbatim>\<open>ardent.py\<close> is a straight line of external commands, guarded by
  directory checks. The embedding makes its effects explicit: a computation takes the
  state of the machine (the file system, the package database, whatever the external
  commands read and write) and returns its result, the new state of the machine and the
  events it produced, in order: the lines it printed and the commands it executed.
  A raised exception is the result \<open>Inl\<close>; the events and the state changes before the
  raise are kept, as in Python.
\<close>

subsection \<open>Strings\<close>

text \<open>\<^verbatim>\<open>sep.join(xs)\<close>\<close>

fun str_join :: "string \<Rightarrow> string list \<Rightarrow> string" where
  "str_join s [] = []"
| "str_join s [x] = x"
| "str_join s (x # y # ys) = x @ s @ str_join s (y # ys)"

text \<open>
  \<^verbatim>\<open>s.split(c)\<close> for a separator of one character: the pieces between the
  separators, empty pieces included; never the empty list.
\<close>

fun str_split :: "char \<Rightarrow> string \<Rightarrow> string list" where
  "str_split c [] = [[]]"
| "str_split c (x # xs) =
     (if x = c then [] # str_split c xs
      else (let r = str_split c xs in (x # hd r) # tl r))"

text \<open>\<^verbatim>\<open>str(n)\<close> for an integer: decimal digits, a minus sign when negative.\<close>

fun str_nat :: "nat \<Rightarrow> string" where
  "str_nat n =
     (if n < 10 then [''0123456789'' ! n]
      else str_nat (n div 10) @ [''0123456789'' ! (n mod 10)])"

declare str_nat.simps [simp del]

definition str_int :: "int \<Rightarrow> string" where
  "str_int i = (if i < 0 then ''-'' @ str_nat (nat (- i)) else str_nat (nat i))"

subsection \<open>Errors, commands and events\<close>

text \<open>
  \<open>ArdentError\<close> is the script's own exception class. \<open>TypeError\<close> is what Python
  raises for \<^verbatim>\<open>None + str\<close>, \<open>OSError\<close> what \<^verbatim>\<open>subprocess.run\<close> raises when the
  program cannot be started at all.
\<close>

datatype error = ArdentError string | TypeError | OSError

text \<open>
  The arguments of one call of \<^verbatim>\<open>subprocess.run\<close>: the command, and the keyword
  arguments \<^verbatim>\<open>cwd\<close>, \<^verbatim>\<open>env\<close> (\<open>None\<close> when not given) and whether
  \<^verbatim>\<open>stdout=subprocess.PIPE\<close> was given.
\<close>

record command =
  cmd_args :: "string list"
  cmd_cwd :: "string option"
  cmd_env :: "(string \<rightharpoonup> string) option"
  cmd_pipe :: bool

text \<open>The \<^verbatim>\<open>CompletedProcess\<close>: exit status and (decoded) standard output.\<close>

record completed =
  returncode :: int
  stdout :: string

datatype event =
  Printed string
| Executed command "completed option"

text \<open>
  What the script sees of the machine and of the Python interpreter it runs on:
  \<^item> \<open>environ\<close>: \<^verbatim>\<open>os.environ\<close>, never written by the script;
  \<^item> \<open>sep\<close> and \<open>pathsep\<close>: \<^verbatim>\<open>os.path.sep\<close> and \<^verbatim>\<open>os.path.pathsep\<close>;
  \<^item> \<open>isdir\<close>: \<^verbatim>\<open>os.path.isdir\<close> in the current state of the machine;
  \<^item> \<open>subprocess_run\<close>: the external command itself: its \<^verbatim>\<open>CompletedProcess\<close>
    (\<open>None\<close> when \<^verbatim>\<open>subprocess.run\<close> raises \<open>OSError\<close>) and the state of the
    machine after it;
  \<^item> \<open>set_list\<close>: the order in which \<^verbatim>\<open>list(s)\<close> enumerates a set of strings
    (Python leaves it unspecified).
\<close>

record 'w os =
  environ :: "string \<rightharpoonup> string"
  sep :: string
  pathsep :: string
  isdir :: "'w \<Rightarrow> string \<Rightarrow> bool"
  subprocess_run :: "command \<Rightarrow> 'w \<Rightarrow> completed option \<times> 'w"
  set_list :: "string set \<Rightarrow> string list"

type_synonym ('w, 'a) io = "'w \<Rightarrow> (error + 'a) \<times> 'w \<times> event list"

definition ret :: "'a \<Rightarrow> ('w, 'a) io" where
  "ret a w = (Inr a, w, [])"

definition raise :: "error \<Rightarrow> ('w, 'a) io" where
  "raise e w = (Inl e, w, [])"

text \<open>Sequencing: an exception of the first part skips the second.\<close>

definition bind :: "('w, 'a) io \<Rightarrow> ('a \<Rightarrow> ('w, 'b) io) \<Rightarrow> ('w, 'b) io" where
  "bind m f w =
     (case m w of
        (Inl e, w1, t1) \<Rightarrow> (Inl e, w1, t1)
      | (Inr a, w1, t1) \<Rightarrow> (case f a w1 of (r, w2, t2) \<Rightarrow> (r, w2, t1 @ t2)))"

definition andthen :: "('w, 'a) io \<Rightarrow> ('w, 'b) io \<Rightarrow> ('w, 'b) io" where
  "andthen m k = bind m (\<lambda>_. k)"

subsection \<open>The script\<close>

text \<open>\<^verbatim>\<open>SYSTEM_DEPENDENCIES\<close>, in the order of the source, before \<^verbatim>\<open>set(...)\<close>.\<close>

definition mingw_packages :: "string list" where
  "mingw_packages =
    [''atk'', ''atkmm'', ''binutils'', ''boost'', ''c-ares'', ''ca-certificates'',
     ''cairo'', ''cairomm'', ''cmake'', ''cppunit'', ''crt-git'', ''curl'', ''dlfcn'',
     ''docbook-xsl'', ''fftw'', ''flac'', ''fontconfig'', ''freetype'', ''gcc'',
     ''gcc-libs'', ''gcc-objc'', ''gdb'', ''gdb-multiarch'', ''gdk-pixbuf2'',
     ''gettext'', ''glib2'', ''glibmm'', ''gnome-common'', ''gnutls'',
     ''gobject-introspection'', ''gtk-doc'', ''gtk2'', ''gtkmm'', ''harfbuzz'',
     ''headers-git'', ''icu'', ''jasper'', ''jbigkit'', ''ladspa-sdk'', ''libgccjit'',
     ''libidn'', ''libjpeg-turbo'', ''libmangle-git'', ''libogg'', ''libpng'',
     ''libsamplerate'', ''libsigc++'', ''libsndfile'', ''libssh2'', ''libtiff'',
     ''libusb'', ''libvorbis'', ''libxml2'', ''libwinpthread-git'', ''lld'', ''lua'',
     ''make'', ''meson'', ''nasm'', ''pango'', ''pangomm'', ''pcre'', ''perl'',
     ''pixman'', ''pkgconf'', ''portaudio'', ''python'', ''python-setuptools'',
     ''rtmpdump-git'', ''rubberband'', ''shared-mime-info'', ''soundtouch'',
     ''taglib'', ''tools-git'', ''vamp-plugin-sdk'', ''wget'', ''wineditline'',
     ''winpthreads-git'', ''winstorecompat-git'']"

definition msys_packages :: "string list" where
  "msys_packages =
    [''autoconf'', ''autogen'', ''automake-wrapper'', ''bison'', ''dos2unix'',
     ''flex'', ''git'', ''gnome-doc-utils'', ''gtk-doc'', ''intltool'',
     ''libgnutls-devel'', ''libtool'', ''libutil-linux-devel'',
     ''msys2-runtime-devel'', ''patch'', ''pkgconf'']"

definition dependency_list :: "string list" where
  "dependency_list =
     map (\<lambda>x. ''mingw-w64-x86_64-'' @ x) mingw_packages @ msys_packages"

definition SYSTEM_DEPENDENCIES :: "string set" where
  "SYSTEM_DEPENDENCIES = set dependency_list"

text \<open>\<^verbatim>\<open>status(message, color)\<close>: the message between two escape sequences.\<close>

definition status_text :: "string \<Rightarrow> string \<Rightarrow> string" where
  "status_text message color =
     [CHR 0x1B] @ ''['' @ color @ ''m'' @ message @ [CHR 0x1B] @ ''[0m''"

definition status :: "string \<Rightarrow> string \<Rightarrow> ('w, unit) io" where
  "status message color w = (Inr (), w, [Printed (status_text message color)])"

text \<open>The call of \<^verbatim>\<open>subprocess.run\<close> inside \<^verbatim>\<open>run\<close>.\<close>

definition subprocess :: "'w os \<Rightarrow> command \<Rightarrow> ('w, completed) io" where
  "subprocess M c w =
     (case subprocess_run M c w of
        (None, w') \<Rightarrow> (Inl OSError, w', [Executed c None])
      | (Some out, w') \<Rightarrow> (Inr out, w', [Executed c (Some out)]))"

definition failure_message :: "int \<Rightarrow> string \<Rightarrow> string" where
  "failure_message code command_line =
     [CHR 0x0A] @ ''Failed to run subprocess (exit code '' @ str_int code @ ''):''
       @ [CHR 0x0A] @ command_line"

definition run :: "'w os \<Rightarrow> command \<Rightarrow> ('w, completed) io" where
  "run M c =
     (let command_line = str_join '' '' (cmd_args c) in
      andthen (status (''> '' @ command_line) ''94'')
       (bind (subprocess M c) (\<lambda>out.
          if returncode out \<noteq> 0
          then raise (ArdentError (failure_message (returncode out) command_line))
          else ret out)))"

text \<open>
  \<^verbatim>\<open>clone(url, target_dir)\<close>: the directory checked is
  \<^verbatim>\<open>target_dir + os.path.sep + url.split("/")[-1]\<close>.
\<close>

definition clone :: "'w os \<Rightarrow> string \<Rightarrow> string \<Rightarrow> ('w, bool) io" where
  "clone M url target_dir w =
     (if \<not> isdir M w (target_dir @ sep M @ last (str_split CHR ''/'' url))
      then andthen
             (run M \<lparr>cmd_args = [''git'', ''clone'', ''--recurse-submodules'', url],
                     cmd_cwd = Some target_dir, cmd_env = None, cmd_pipe = False\<rparr>)
             (ret True) w
      else ret False w)"

definition patch :: "'w os \<Rightarrow> string \<Rightarrow> ('w, unit) io" where
  "patch M patch_name =
     andthen
       (run M \<lparr>cmd_args = [''patch'', ''-i'', ''patches/'' @ patch_name, ''-p0''],
               cmd_cwd = None, cmd_env = None, cmd_pipe = False\<rparr>)
       (ret ())"

text \<open>
  The positional arguments \<^verbatim>\<open>*args\<close> of \<^verbatim>\<open>waf\<close> and \<^verbatim>\<open>meson\<close>: only
  whether the first one is a list matters
  (\<^verbatim>\<open>len(args) > 0 and type(args[0]) is list\<close>).
\<close>

datatype arg = ListArg "string list" | OtherArg

definition extra_options :: "arg list \<Rightarrow> string list" where
  "extra_options args = (case args of ListArg xs # _ \<Rightarrow> xs | _ \<Rightarrow> [])"

text \<open>
  \<^verbatim>\<open>waf(*args, cwd="./", waf="waf", env={}, c=False, cxx=False)\<close>; the callers'
  defaults are written out at each call.
\<close>

definition waf ::
  "'w os \<Rightarrow> arg list \<Rightarrow> string \<Rightarrow> string \<Rightarrow> (string \<rightharpoonup> string) \<Rightarrow> bool \<Rightarrow> bool
     \<Rightarrow> ('w, unit) io" where
  "waf M args cwd waf_script env c cxx =
     (let options = [''python3'', waf_script, ''configure'', ''build'', ''install'',
                     ''--prefix=/mingw64''];
          options = (if c then options @ [''--check-c-compiler=gcc''] else options);
          options = (if cxx then options @ [''--check-cxx-compiler=g++''] else options);
          options = options @ extra_options args
      in andthen
           (run M \<lparr>cmd_args = options, cmd_cwd = Some cwd,
                   cmd_env = Some (environ M ++ env), cmd_pipe = False\<rparr>)
           (ret ()))"

definition ac :: "'w os \<Rightarrow> string \<Rightarrow> ('w, unit) io" where
  "ac M cwd =
     andthen
       (run M \<lparr>cmd_args = [''sh'', ''./autogen.sh''], cmd_cwd = Some cwd,
               cmd_env = Some (environ M ++ [''ACLOCAL_PATH'' \<mapsto> ''/usr/share/aclocal'']),
               cmd_pipe = False\<rparr>)
       (andthen
          (run M \<lparr>cmd_args = [''make'', ''install''], cmd_cwd = Some cwd,
                  cmd_env = None, cmd_pipe = False\<rparr>)
          (ret ()))"

definition meson :: "'w os \<Rightarrow> arg list \<Rightarrow> string \<Rightarrow> ('w, unit) io" where
  "meson M args cwd =
     (let build = cwd @ sep M @ ''build'' in
      andthen
        (\<lambda>w. if \<not> isdir M w build
              then andthen
                     (run M \<lparr>cmd_args = [''meson'', ''setup'', ''build''],
                             cmd_cwd = Some cwd, cmd_env = None, cmd_pipe = False\<rparr>)
                     (ret ()) w
              else ret () w)
        (let options = [''meson'', ''configure''] @ extra_options args in
         andthen
           (run M \<lparr>cmd_args = options, cmd_cwd = Some build,
                   cmd_env = None, cmd_pipe = False\<rparr>)
           (andthen
              (run M \<lparr>cmd_args = [''meson'', ''compile''], cmd_cwd = Some build,
                      cmd_env = None, cmd_pipe = False\<rparr>)
              (andthen
                 (run M \<lparr>cmd_args = [''meson'', ''install''], cmd_cwd = Some build,
                         cmd_env = None, cmd_pipe = False\<rparr>)
                 (ret ())))))"

definition shell_message :: string where
  "shell_message =
     ''Ardent should be executed from a MSYS2 shell. If you don't have MSYS2, ''
     @ ''you can install it from https://www.msys2.org/.''"

definition check_shell :: "'w os \<Rightarrow> ('w, unit) io" where
  "check_shell M =
     (if environ M ''MSYSTEM'' \<noteq> Some ''MINGW64''
      then raise (ArdentError shell_message)
      else ret ())"

definition install_package_deps :: "'w os \<Rightarrow> ('w, unit) io" where
  "install_package_deps M =
     andthen (status ''Checking packages...'' ''96'')
      (bind
        (run M \<lparr>cmd_args = [''pacman'', ''-Qq''], cmd_cwd = None, cmd_env = None,
                cmd_pipe = True\<rparr>)
        (\<lambda>out.
          let packages = set (str_split (CHR 0x0A) (stdout out));
              to_install = SYSTEM_DEPENDENCIES - packages
          in if to_install \<noteq> {}
             then andthen (status ''Installing required dependencies...'' ''96'')
                   (andthen
                     (run M \<lparr>cmd_args = [''pacman'', ''-S'', ''--noconfirm'', ''--needed'']
                                          @ set_list M to_install,
                             cmd_cwd = None, cmd_env = None, cmd_pipe = False\<rparr>)
                     (status ''Installed all required system dependencies.'' ''96''))
             else status ''All system dependencies have already been installed.'' ''96''))"

text \<open>\<^verbatim>\<open>if clone(url, target_dir="deps"): patch(p1); patch(p2); ...\<close>\<close>

definition when_cloned :: "('w, bool) io \<Rightarrow> ('w, unit) io \<Rightarrow> ('w, unit) io" where
  "when_cloned c body = bind c (\<lambda>fresh. if fresh then body else ret ())"

definition fetch_libraries :: "'w os \<Rightarrow> ('w, unit) io" where
  "fetch_libraries M =
     andthen (status ''Fetching libraries...'' ''96'')
      (andthen (clone M ''https://github.com/jackaudio/jack2'' ''deps'')
      (andthen (when_cloned (clone M ''https://github.com/aubio/aubio'' ''deps'')
                  (patch M ''aubio_priv.h.patch''))
      (andthen (clone M ''https://github.com/radarsat1/liblo'' ''deps'')
      (andthen (clone M ''https://github.com/x42/libltc'' ''deps'')
      (andthen (when_cloned (clone M ''https://github.com/swh/LRDF'' ''deps'')
                  (patch M ''lrdf_types.h.patch''))
      (andthen (when_cloned (clone M ''https://github.com/dajobe/raptor'' ''deps'')
                  (patch M ''sort_r.h.patch''))
      (andthen (when_cloned (clone M ''https://github.com/lv2/lv2kit'' ''deps'')
                  (patch M ''win_in_gtk2.cpp.patch''))
               (when_cloned (clone M ''git://git.ardour.org/ardour/ardour'' ''deps'')
                  (andthen (patch M ''ardour-wscript.patch'')
                  (andthen (patch M ''main.cc.patch'')
                           (patch M ''pbd.cc.patch'')))))))))))"

definition build_libraries :: "'w os \<Rightarrow> ('w, unit) io" where
  "build_libraries M =
     andthen (status ''Building libraries...'' ''96'')
      (andthen (waf M [] ''deps/jack2'' ''waf'' Map.empty True True)
      (andthen (ac M ''deps/liblo'')
      (andthen (ac M ''deps/libltc'')
      (andthen (ac M ''deps/raptor'')
      (andthen (ac M ''deps/LRDF'')
      (andthen (meson M [ListArg [''-Dcxx=true'']] ''deps/lv2kit'')
               (waf M [ListArg [''--disable-tests'']] ''deps/aubio'' ''../ardour/waf''
                  Map.empty True False)))))))"

definition ardour_options :: "string list" where
  "ardour_options =
     [''--prefix=/mingw64'', ''--configdir=/share'', ''--check-c-compiler=gcc'',
      ''--check-cxx-compiler=g++'', ''--dist-target=mingw'', ''--no-dr-mingw'',
      ''--use-lld'', ''--optimize'', ''--exports-hidden'', ''--windows-vst'']"

text \<open>
  The arguments of the call of \<^verbatim>\<open>waf\<close> are evaluated before the call:
  \<^verbatim>\<open>os.getenv("PKG_CONFIG_PATH") + os.path.pathsep + ...\<close> raises \<open>TypeError\<close>
  when the variable is not set.
\<close>

definition build_ardour :: "'w os \<Rightarrow> ('w, unit) io" where
  "build_ardour M =
     andthen (status ''Building Ardour...'' ''96'')
      (case environ M ''PKG_CONFIG_PATH'' of
         None \<Rightarrow> raise TypeError
       | Some p \<Rightarrow>
           waf M [ListArg ardour_options] ''deps/ardour'' ''waf''
             [''PKG_CONFIG_PATH'' \<mapsto>
                p @ pathsep M @ ''C:'' @ [CHR 0x5C] @ ''mingw64'' @ [CHR 0x5C] @ ''lib''
                  @ [CHR 0x5C] @ ''pkgconfig'']
             True True)"

definition main :: "'w os \<Rightarrow> ('w, unit) io" where
  "main M =
     andthen (check_shell M)
      (andthen (install_package_deps M)
      (andthen (fetch_libraries M)
      (andthen (build_libraries M)
               (build_ardour M))))"

text \<open>
  The \<^verbatim>\<open>__main__\<close> block: \<^verbatim>\<open>try: main() except ArdentError as e:
  status(e.message, color="91"); raise\<close>. Any other exception passes through.
\<close>

definition try_except_ardent ::
  "('w, 'a) io \<Rightarrow> (string \<Rightarrow> ('w, 'a) io) \<Rightarrow> ('w, 'a) io" where
  "try_except_ardent m handler w =
     (case m w of
        (Inl (ArdentError message), w1, t1) \<Rightarrow>
          (case handler message w1 of (r, w2, t2) \<Rightarrow> (r, w2, t1 @ t2))
      | r \<Rightarrow> r)"

definition script :: "'w os \<Rightarrow> ('w, unit) io" where
  "script M =
     try_except_ardent (main M)
       (\<lambda>message. andthen (status message ''91'') (raise (ArdentError message)))"

text \<open>
  The exit status of the interpreter: 1 when the script ends with an exception that
  nothing caught, 0 otherwise.
\<close>

definition exit_status :: "(error + unit) \<times> 'w \<times> event list \<Rightarrow> int" where
  "exit_status r = (case fst r of Inl _ \<Rightarrow> 1 | Inr _ \<Rightarrow> 0)"

section \<open>Reading a run\<close>

text \<open>The three parts of what a computation returns.\<close>

abbreviation result_of :: "(error + 'a) \<times> 'w \<times> event list \<Rightarrow> error + 'a" where
  "result_of x \<equiv> fst x"

abbreviation state_of :: "(error + 'a) \<times> 'w \<times> event list \<Rightarrow> 'w" where
  "state_of x \<equiv> fst (snd x)"

abbreviation trace_of :: "(error + 'a) \<times> 'w \<times> event list \<Rightarrow> event list" where
  "trace_of x \<equiv> snd (snd x)"

text \<open>The commands executed, in order.\<close>

fun commands :: "event list \<Rightarrow> command list" where
  "commands [] = []"
| "commands (Printed _ # es) = commands es"
| "commands (Executed c _ # es) = c # commands es"

definition command_line :: "command \<Rightarrow> string" where
  "command_line c = str_join '' '' (cmd_args c)"

text \<open>The exception that \<^verbatim>\<open>run\<close> raises for an executed command, if any.\<close>

definition failure_of :: "event \<Rightarrow> error option" where
  "failure_of e =
     (case e of
        Printed _ \<Rightarrow> None
      | Executed c None \<Rightarrow> Some OSError
      | Executed c (Some out) \<Rightarrow>
          (if returncode out \<noteq> 0
           then Some (ArdentError (failure_message (returncode out) (command_line c)))
           else None))"

text \<open>
  A computation is \<open>sound\<close> when a command that fails is the last event of the run
  and its exception is the result of the run: nothing catches it, nothing runs after it.
\<close>

definition sound :: "('w, 'a) io \<Rightarrow> bool" where
  "sound m \<longleftrightarrow>
     (\<forall>w r w' t. m w = (r, w', t) \<longrightarrow>
        (\<forall>i < length t. \<forall>e. failure_of (t ! i) = Some e \<longrightarrow> r = Inl e \<and> Suc i = length t))"

text \<open>Every command that the computation executes satisfies \<open>P\<close>.\<close>

definition only :: "(command \<Rightarrow> bool) \<Rightarrow> ('w, 'a) io \<Rightarrow> bool" where
  "only P m \<longleftrightarrow> (\<forall>w. \<forall>c \<in> set (commands (trace_of (m w))). P c)"

text \<open>No external command makes the property \<open>I\<close> of the machine false.\<close>

definition stable :: "'w os \<Rightarrow> ('w \<Rightarrow> bool) \<Rightarrow> bool" where
  "stable M I \<longleftrightarrow> (\<forall>c w. I w \<longrightarrow> I (snd (subprocess_run M c w)))"

definition keeps :: "('w \<Rightarrow> bool) \<Rightarrow> ('w, 'a) io \<Rightarrow> bool" where
  "keeps I m \<longleftrightarrow> (\<forall>w. I w \<longrightarrow> I (state_of (m w)))"

text \<open>Every external command starts and exits with status 0, in every state.\<close>

definition always_ok :: "'w os \<Rightarrow> bool" where
  "always_ok M \<longleftrightarrow>
     (\<forall>c w. \<exists>out. fst (subprocess_run M c w) = Some out \<and> returncode out = 0)"

definition succeeds :: "('w, 'a) io \<Rightarrow> bool" where
  "succeeds m \<longleftrightarrow> (\<forall>w. \<exists>a. result_of (m w) = Inr a)"

subsection \<open>The commands of the script, by name\<close>

definition pacman_query :: command where
  "pacman_query =
     \<lparr>cmd_args = [''pacman'', ''-Qq''], cmd_cwd = None, cmd_env = None, cmd_pipe = True\<rparr>"

definition pacman_install :: "string list \<Rightarrow> command" where
  "pacman_install ps =
     \<lparr>cmd_args = [''pacman'', ''-S'', ''--noconfirm'', ''--needed''] @ ps,
      cmd_cwd = None, cmd_env = None, cmd_pipe = False\<rparr>"

definition git_clone :: "string \<Rightarrow> string \<Rightarrow> command" where
  "git_clone url target_dir =
     \<lparr>cmd_args = [''git'', ''clone'', ''--recurse-submodules'', url],
      cmd_cwd = Some target_dir, cmd_env = None, cmd_pipe = False\<rparr>"

definition patch_command :: "string \<Rightarrow> command" where
  "patch_command patch_name =
     \<lparr>cmd_args = [''patch'', ''-i'', ''patches/'' @ patch_name, ''-p0''],
      cmd_cwd = None, cmd_env = None, cmd_pipe = False\<rparr>"

definition waf_command ::
  "'w os \<Rightarrow> string list \<Rightarrow> string \<Rightarrow> string \<Rightarrow> (string \<rightharpoonup> string) \<Rightarrow> bool \<Rightarrow> bool
     \<Rightarrow> command" where
  "waf_command M extra cwd waf_script env c cxx =
     \<lparr>cmd_args = [''python3'', waf_script, ''configure'', ''build'', ''install'',
                  ''--prefix=/mingw64'']
                 @ (if c then [''--check-c-compiler=gcc''] else [])
                 @ (if cxx then [''--check-cxx-compiler=g++''] else [])
                 @ extra,
      cmd_cwd = Some cwd, cmd_env = Some (environ M ++ env), cmd_pipe = False\<rparr>"

definition autogen_command :: "'w os \<Rightarrow> string \<Rightarrow> command" where
  "autogen_command M cwd =
     \<lparr>cmd_args = [''sh'', ''./autogen.sh''], cmd_cwd = Some cwd,
      cmd_env = Some (environ M ++ [''ACLOCAL_PATH'' \<mapsto> ''/usr/share/aclocal'']),
      cmd_pipe = False\<rparr>"

definition make_install :: "string \<Rightarrow> command" where
  "make_install cwd =
     \<lparr>cmd_args = [''make'', ''install''], cmd_cwd = Some cwd, cmd_env = None,
      cmd_pipe = False\<rparr>"

definition meson_command :: "string list \<Rightarrow> string \<Rightarrow> command" where
  "meson_command a dir =
     \<lparr>cmd_args = ''meson'' # a, cmd_cwd = Some dir, cmd_env = None, cmd_pipe = False\<rparr>"

text \<open>The three steps of \<^verbatim>\<open>meson\<close> that follow the setup, in the build directory.\<close>

definition meson_steps :: "string list \<Rightarrow> string \<Rightarrow> command list" where
  "meson_steps extra build =
     [meson_command (''configure'' # extra) build,
      meson_command [''compile''] build,
      meson_command [''install''] build]"

definition pkg_config_path :: "'w os \<Rightarrow> string \<Rightarrow> string" where
  "pkg_config_path M p =
     p @ pathsep M @ ''C:'' @ [CHR 0x5C] @ ''mingw64'' @ [CHR 0x5C] @ ''lib''
       @ [CHR 0x5C] @ ''pkgconfig''"

text \<open>The builds before lv2kit: jack2, liblo, libltc, raptor, LRDF.\<close>

definition first_libraries :: "'w os \<Rightarrow> command list" where
  "first_libraries M =
     [waf_command M [] ''deps/jack2'' ''waf'' Map.empty True True,
      autogen_command M ''deps/liblo'', make_install ''deps/liblo'',
      autogen_command M ''deps/libltc'', make_install ''deps/libltc'',
      autogen_command M ''deps/raptor'', make_install ''deps/raptor'',
      autogen_command M ''deps/LRDF'', make_install ''deps/LRDF'']"

text \<open>
  The commands of \<^verbatim>\<open>build_libraries\<close>; \<open>first\<close> is what precedes the configure
  step of meson: its setup step, or nothing.
\<close>

definition library_commands :: "'w os \<Rightarrow> command list \<Rightarrow> command list" where
  "library_commands M first =
     first_libraries M
     @ first
     @ meson_steps [''-Dcxx=true''] (''deps/lv2kit'' @ sep M @ ''build'')
     @ [waf_command M [''--disable-tests''] ''deps/aubio'' ''../ardour/waf'' Map.empty
          True False]"

definition ardour_command :: "'w os \<Rightarrow> string \<Rightarrow> command" where
  "ardour_command M p =
     waf_command M ardour_options ''deps/ardour'' ''waf''
       [''PKG_CONFIG_PATH'' \<mapsto> pkg_config_path M p] True True"

text \<open>
  A chain of \<^verbatim>\<open>run\<close> calls: the commands one after the other, up to the first
  that fails.
\<close>

fun run_all :: "'w os \<Rightarrow> command list \<Rightarrow> ('w, unit) io" where
  "run_all M [] = ret ()"
| "run_all M (c # cs) = andthen (run M c) (run_all M cs)"

text \<open>The commands of one call of \<^verbatim>\<open>meson\<close>, from the state of the build directory.\<close>

definition meson_plan :: "'w os \<Rightarrow> arg list \<Rightarrow> string \<Rightarrow> 'w \<Rightarrow> command list" where
  "meson_plan M args cwd w =
     (if isdir M w (cwd @ sep M @ ''build'') then []
      else [meson_command [''setup'', ''build''] cwd])
     @ meson_steps (extra_options args) (cwd @ sep M @ ''build'')"

text \<open>The program of a command is one of the fetch and install tools.\<close>

definition fetch_or_install :: "command \<Rightarrow> bool" where
  "fetch_or_install c \<longleftrightarrow>
     take 1 (cmd_args c) \<in> {[''pacman''], [''git''], [''patch'']}"

subsection \<open>The fetch list as a table\<close>

text \<open>
  The dependencies of \<^verbatim>\<open>fetch_libraries\<close>, in its order, each with the patches that
  follow a fresh clone.
\<close>

definition fetch_list :: "(string \<times> string list) list" where
  "fetch_list =
     [(''https://github.com/jackaudio/jack2'', []),
      (''https://github.com/aubio/aubio'', [''aubio_priv.h.patch'']),
      (''https://github.com/radarsat1/liblo'', []),
      (''https://github.com/x42/libltc'', []),
      (''https://github.com/swh/LRDF'', [''lrdf_types.h.patch'']),
      (''https://github.com/dajobe/raptor'', [''sort_r.h.patch'']),
      (''https://github.com/lv2/lv2kit'', [''win_in_gtk2.cpp.patch'']),
      (''git://git.ardour.org/ardour/ardour'',
         [''ardour-wscript.patch'', ''main.cc.patch'', ''pbd.cc.patch''])]"

fun patches :: "'w os \<Rightarrow> string list \<Rightarrow> ('w, unit) io" where
  "patches M [] = ret ()"
| "patches M (p # ps) = andthen (patch M p) (patches M ps)"

definition fetch_one :: "'w os \<Rightarrow> string \<Rightarrow> string list \<Rightarrow> ('w, unit) io" where
  "fetch_one M url ps = when_cloned (clone M url ''deps'') (patches M ps)"

fun fetch_all :: "'w os \<Rightarrow> (string \<times> string list) list \<Rightarrow> ('w, unit) io" where
  "fetch_all M [] = ret ()"
| "fetch_all M ((url, ps) # ds) = andthen (fetch_one M url ps) (fetch_all M ds)"

text \<open>The directory that \<^verbatim>\<open>clone\<close> checks for a dependency.\<close>

definition checkout :: "'w os \<Rightarrow> string \<Rightarrow> string" where
  "checkout M url = ''deps'' @ sep M @ last (str_split CHR ''/'' url)"

text \<open>The script up to the build of the application.\<close>

definition before_ardour :: "'w os \<Rightarrow> ('w, unit) io" where
  "before_ardour M =
     andthen (check_shell M)
      (andthen (install_package_deps M)
      (andthen (fetch_libraries M) (build_libraries M)))"

subsection \<open>A second run\<close>

text \<open>
  Every directory that the script checks exists: the checkout of each dependency of the
  fetch list, and the build directory of the one dependency built with meson.
\<close>

definition all_present :: "'w os \<Rightarrow> 'w \<Rightarrow> bool" where
  "all_present M w \<longleftrightarrow>
     (\<forall>url \<in> set (map fst fetch_list). isdir M w (checkout M url))
     \<and> isdir M w (''deps/lv2kit'' @ sep M @ ''build'')"

text \<open>Every required package is among the lines that \<^verbatim>\<open>pacman -Qq\<close> prints.\<close>

definition all_installed :: "'w os \<Rightarrow> 'w \<Rightarrow> bool" where
  "all_installed M w \<longleftrightarrow>
     (\<forall>out. fst (subprocess_run M pacman_query w) = Some out \<longrightarrow>
        SYSTEM_DEPENDENCIES \<subseteq> set (str_split (CHR 0x0A) (stdout out)))"

text \<open>A clone, a patch or a package installation.\<close>

definition clone_patch_or_install :: "command \<Rightarrow> bool" where
  "clone_patch_or_install c \<longleftrightarrow>
     take 2 (cmd_args c) = [''git'', ''clone'']
     \<or> take 1 (cmd_args c) = [''patch'']
     \<or> take 2 (cmd_args c) = [''pacman'', ''-S'']"

subsection \<open>Machines for the examples\<close>

text \<open>
  What \<^verbatim>\<open>pacman -Qq\<close> prints when exactly the required packages are installed.
\<close>

definition installed_text :: string where
  "installed_text = concat (map (\<lambda>p. p @ [CHR 0x0A]) dependency_list)"

definition msys_env :: "string \<rightharpoonup> string" where
  "msys_env = [''MSYSTEM'' \<mapsto> ''MINGW64'', ''PKG_CONFIG_PATH'' \<mapsto> ''/mingw64/lib/pkgconfig'']"

text \<open>
  A machine whose answers do not depend on its state: every directory check answers
  \<open>present\<close>, every command exits with status \<open>code\<close> and prints \<open>out\<close>. With
  \<open>present = False\<close> it answers as in a first run, where each directory is checked
  before it is made; with \<open>present = True\<close> as in a second run.
\<close>

definition machine :: "(string \<rightharpoonup> string) \<Rightarrow> bool \<Rightarrow> int \<Rightarrow> string \<Rightarrow> unit os" where
  "machine e present code out =
     \<lparr>environ = e, sep = ''/'', pathsep = '';'',
      isdir = (\<lambda>w p. present),
      subprocess_run = (\<lambda>c w. (Some \<lparr>returncode = code, stdout = out\<rparr>, w)),
      set_list = sorted_list_of_set\<rparr>"

section \<open>Properties\<close>

subsection \<open>Sequencing\<close>

lemma commands_append [simp]: "commands (s @ t) = commands s @ commands t"
  by (induction s rule: commands.induct) simp_all

lemma ret_eq [simp]: "ret a w = (Inr a, w, [])"
  by (simp add: ret_def)

lemma raise_eq [simp]: "raise e w = (Inl e, w, [])"
  by (simp add: raise_def)

lemma status_eq [simp]: "status m c w = (Inr (), w, [Printed (status_text m c)])"
  by (simp add: status_def)

lemma bind_Inl: "m w = (Inl e, w1, t1) \<Longrightarrow> bind m f w = (Inl e, w1, t1)"
  by (simp add: bind_def)

lemma bind_Inr:
  "m w = (Inr a, w1, t1) \<Longrightarrow> f a w1 = (r, w2, t2) \<Longrightarrow> bind m f w = (r, w2, t1 @ t2)"
  by (simp add: bind_def)

lemma andthen_Inl: "m w = (Inl e, w1, t1) \<Longrightarrow> andthen m k w = (Inl e, w1, t1)"
  by (simp add: andthen_def bind_def)

lemma andthen_Inr:
  "m w = (Inr a, w1, t1) \<Longrightarrow> k w1 = (r, w2, t2) \<Longrightarrow> andthen m k w = (r, w2, t1 @ t2)"
  by (simp add: andthen_def bind_def)

lemma bind_cases:
  obtains (fails) e w1 t1 where "m w = (Inl e, w1, t1)" "bind m f w = (Inl e, w1, t1)"
  | (goes) a w1 t1 r w2 t2 where "m w = (Inr a, w1, t1)" "f a w1 = (r, w2, t2)"
      "bind m f w = (r, w2, t1 @ t2)"
proof (cases "m w")
  case (fields r1 w1 t1)
  show ?thesis
  proof (cases r1)
    case (Inl e)
    with fields show ?thesis by (auto intro: fails simp: bind_def)
  next
    case (Inr a)
    obtain r w2 t2 where "f a w1 = (r, w2, t2)" by (cases "f a w1") auto
    with fields Inr show ?thesis by (auto intro: goes simp: bind_def)
  qed
qed

lemma bind_InrD:
  assumes "bind m f w = (Inr b, w2, t)"
  shows "\<exists>a w1 t1 t2. m w = (Inr a, w1, t1) \<and> f a w1 = (Inr b, w2, t2) \<and> t = t1 @ t2"
  using assms by (cases rule: bind_cases[of m w f]) auto

lemma andthen_InrD:
  assumes "andthen m k w = (Inr b, w2, t)"
  shows "\<exists>a w1 t1 t2. m w = (Inr a, w1, t1) \<and> k w1 = (Inr b, w2, t2) \<and> t = t1 @ t2"
  using assms unfolding andthen_def by (rule bind_InrD)

lemma run_eq:
  "run M c w =
     (case subprocess_run M c w of
        (None, w') \<Rightarrow>
          (Inl OSError, w',
           [Printed (status_text (''> '' @ command_line c) ''94''), Executed c None])
      | (Some out, w') \<Rightarrow>
          (if returncode out \<noteq> 0
           then Inl (ArdentError (failure_message (returncode out) (command_line c)))
           else Inr out,
           w', [Printed (status_text (''> '' @ command_line c) ''94''), Executed c (Some out)]))"
  by (simp add: run_def Let_def andthen_def bind_def subprocess_def command_line_def
      split: prod.splits option.splits)

lemma run_commands [simp]: "commands (trace_of (run M c w)) = [c]"
  by (simp add: run_eq split: prod.splits option.splits)

subsection \<open>A failing command ends the run\<close>

lemma soundD:
  "sound m \<Longrightarrow> m w = (r, w', t) \<Longrightarrow> i < length t \<Longrightarrow> failure_of (t ! i) = Some e
     \<Longrightarrow> r = Inl e \<and> Suc i = length t"
  unfolding sound_def by blast

lemma sound_ret [simp]: "sound (ret a)"
  by (simp add: sound_def)

lemma sound_ret_fun [simp]: "sound (\<lambda>w. (Inr a, w, []))"
  by (simp add: sound_def)

lemma sound_raise [simp]: "sound (raise e)"
  by (simp add: sound_def)

lemma sound_status [simp]: "sound (status m c)"
  by (simp add: sound_def failure_of_def)

lemma sound_run [simp]: "sound (run M c)"
  by (auto simp: sound_def run_eq failure_of_def less_Suc_eq
      split: prod.splits option.splits if_splits)

lemma sound_bind:
  assumes "sound m" and "\<And>a. sound (f a)"
  shows "sound (bind m f)"
  unfolding sound_def
proof (intro allI impI)
  fix w r w' t i e
  assume run: "bind m f w = (r, w', t)" and i: "i < length t"
    and fail: "failure_of (t ! i) = Some e"
  show "r = Inl e \<and> Suc i = length t"
  proof (cases rule: bind_cases[of m w f])
    case (fails x w1 t1)
    with run have "r = Inl x" "t = t1" by simp_all
    with soundD[OF assms(1) fails(1)] i fail show ?thesis by auto
  next
    case (goes a w1 t1 r2 w2 t2)
    with run have eq: "r = r2" "t = t1 @ t2" by simp_all
    have quiet: "failure_of (t1 ! j) = None" if j: "j < length t1" for j
    proof (cases "failure_of (t1 ! j)")
      case (Some x)
      with soundD[OF assms(1) goes(1) j] show ?thesis by simp
    qed simp
    have ge: "length t1 \<le> i"
    proof (rule ccontr)
      assume "\<not> length t1 \<le> i"
      then have "i < length t1" by simp
      with quiet[of i] fail eq show False by (simp add: nth_append)
    qed
    with i fail eq have "i - length t1 < length t2"
      "failure_of (t2 ! (i - length t1)) = Some e"
      by (auto simp: nth_append)
    with soundD[OF assms(2)[of a] goes(2)]
    have "r2 = Inl e \<and> Suc (i - length t1) = length t2" by simp
    with eq ge show ?thesis by auto
  qed
qed

lemma sound_andthen: "sound m \<Longrightarrow> sound k \<Longrightarrow> sound (andthen m k)"
  by (simp add: andthen_def sound_bind)

lemma sound_cond:
  "sound m \<Longrightarrow> sound k \<Longrightarrow> sound (\<lambda>w. if b w then m w else k w)"
  by (auto simp: sound_def)

lemma sound_clone [simp]: "sound (clone M url d)"
  unfolding clone_def by (rule sound_cond) (simp_all add: sound_andthen)

lemma sound_patch [simp]: "sound (patch M p)"
  by (simp add: patch_def sound_andthen)

lemma sound_waf [simp]: "sound (waf M args cwd ws env c cxx)"
  by (simp add: waf_def Let_def sound_andthen)

lemma sound_ac [simp]: "sound (ac M cwd)"
  by (simp add: ac_def sound_andthen)

lemma sound_meson [simp]: "sound (meson M args cwd)"
  unfolding meson_def Let_def
  by (intro sound_andthen sound_cond) simp_all

lemma sound_check_shell [simp]: "sound (check_shell M)"
  by (simp add: check_shell_def)

lemma sound_install [simp]: "sound (install_package_deps M)"
  unfolding install_package_deps_def Let_def
  by (intro sound_andthen sound_bind) (simp_all add: sound_andthen)

lemma sound_when_cloned: "sound c \<Longrightarrow> sound b \<Longrightarrow> sound (when_cloned c b)"
  unfolding when_cloned_def by (rule sound_bind) simp_all

lemma sound_fetch [simp]: "sound (fetch_libraries M)"
  unfolding fetch_libraries_def
  by (intro sound_andthen sound_when_cloned) simp_all

lemma sound_build_libraries [simp]: "sound (build_libraries M)"
  unfolding build_libraries_def
  by (intro sound_andthen) simp_all

lemma sound_build_ardour [simp]: "sound (build_ardour M)"
  unfolding build_ardour_def
  by (intro sound_andthen) (simp_all split: option.splits)


lemma exit_status_eq [simp]:
  "exit_status (r, w, t) = (case r of Inl _ \<Rightarrow> 1 | Inr _ \<Rightarrow> 0)"
  by (simp add: exit_status_def)

lemma script_ardent_error:
  "main M w = (Inl (ArdentError msg), w', t) \<Longrightarrow>
   script M w = (Inl (ArdentError msg), w', t @ [Printed (status_text msg ''91'')])"
  by (simp add: script_def try_except_ardent_def andthen_def bind_def)

lemma script_other:
  "main M w = (r, w', t) \<Longrightarrow> \<forall>msg. r \<noteq> Inl (ArdentError msg) \<Longrightarrow> script M w = (r, w', t)"
  by (cases r) (auto simp: script_def try_except_ardent_def split: error.splits)


text \<open>
  C2. When \<^verbatim>\<open>MSYSTEM\<close> is not \<^verbatim>\<open>MINGW64\<close> (unset included), the run raises the
  environment error at once: no command is executed, nothing is printed by
  \<^verbatim>\<open>main\<close> and the state of the machine is the one it started in. The top level
  prints that one message in colour 91, raises it again, and the exit status is 1.
\<close>

theorem wrong_shell_aborts:
  assumes "environ M ''MSYSTEM'' \<noteq> Some ''MINGW64''"
  shows "main M w = (Inl (ArdentError shell_message), w, [])
       \<and> script M w
           = (Inl (ArdentError shell_message), w, [Printed (status_text shell_message ''91'')])
       \<and> commands (trace_of (script M w)) = []
       \<and> exit_status (script M w) = 1"
proof -
  from assms have "check_shell M w = (Inl (ArdentError shell_message), w, [])"
    by (simp add: check_shell_def)
  then have m: "main M w = (Inl (ArdentError shell_message), w, [])"
    unfolding main_def by (rule andthen_Inl)
  from script_ardent_error[OF m] m show ?thesis
    by (simp add: exit_status_def)
qed

theorem wrong_shell_aborts_witness:
  "environ (machine Map.empty True 0 []) ''MSYSTEM'' \<noteq> Some ''MINGW64''
   \<and> main (machine Map.empty True 0 []) () = (Inl (ArdentError shell_message), (), [])
   \<and> exit_status (script (machine Map.empty True 0 []) ()) = 1"
  using wrong_shell_aborts[of "machine Map.empty True 0 []" "()"]
  by (simp add: machine_def exit_status_def)





subsection \<open>Laws of sequencing\<close>

lemma andthen_assoc: "andthen (andthen a b) c = andthen a (andthen b c)"
  by (rule ext) (simp add: andthen_def bind_def split: prod.splits sum.splits)

lemma andthen_ret_unit: "andthen m (ret ()) = (m :: ('w, unit) io)"
  by (rule ext) (simp add: andthen_def bind_def split: prod.splits sum.splits)

subsection \<open>Success when every command succeeds\<close>

lemma succeedsD: "succeeds m \<Longrightarrow> \<exists>a. result_of (m w) = Inr a"
  by (simp add: succeeds_def)

lemma succeeds_unit: "succeeds (m :: ('w, unit) io) \<Longrightarrow> result_of (m w) = Inr ()"
  by (auto dest: succeedsD[of m w])

lemma succeeds_ret [simp]: "succeeds (ret a)"
  by (simp add: succeeds_def)

lemma succeeds_ret_fun [simp]: "succeeds (\<lambda>w. (Inr a, w, []))"
  by (simp add: succeeds_def)

lemma succeeds_status [simp]: "succeeds (status m c)"
  by (simp add: succeeds_def)

lemma succeeds_run: "always_ok M \<Longrightarrow> succeeds (run M c)"
  unfolding succeeds_def always_ok_def
proof
  fix w
  assume ok: "\<forall>c w. \<exists>out. fst (subprocess_run M c w) = Some out \<and> returncode out = 0"
  then obtain out where "fst (subprocess_run M c w) = Some out" "returncode out = 0"
    by blast
  then show "\<exists>a. result_of (run M c w) = Inr a"
    by (cases "subprocess_run M c w") (simp add: run_eq)
qed

lemma succeeds_bind:
  assumes "succeeds m" and "\<And>a. succeeds (f a)"
  shows "succeeds (bind m f)"
  unfolding succeeds_def
proof
  fix w
  from succeedsD[OF assms(1), of w] obtain a w1 t1 where m: "m w = (Inr a, w1, t1)"
    by (cases "m w") auto
  from succeedsD[OF assms(2), of a w1] obtain b w2 t2 where "f a w1 = (Inr b, w2, t2)"
    by (cases "f a w1") auto
  with m show "\<exists>b. result_of (bind m f w) = Inr b"
    by (simp add: bind_def)
qed

lemma succeeds_andthen: "succeeds m \<Longrightarrow> succeeds k \<Longrightarrow> succeeds (andthen m k)"
  by (simp add: andthen_def succeeds_bind)

lemma succeeds_cond:
  "succeeds m \<Longrightarrow> succeeds k \<Longrightarrow> succeeds (\<lambda>w. if b w then m w else k w)"
  by (simp add: succeeds_def)

lemma succeeds_clone: "always_ok M \<Longrightarrow> succeeds (clone M url d)"
  unfolding clone_def by (rule succeeds_cond) (simp_all add: succeeds_andthen succeeds_run)

lemma succeeds_patch: "always_ok M \<Longrightarrow> succeeds (patch M p)"
  by (simp add: patch_def succeeds_andthen succeeds_run)

lemma succeeds_waf: "always_ok M \<Longrightarrow> succeeds (waf M args cwd ws env c cxx)"
  by (simp add: waf_def Let_def succeeds_andthen succeeds_run)

lemma succeeds_ac: "always_ok M \<Longrightarrow> succeeds (ac M cwd)"
  by (simp add: ac_def succeeds_andthen succeeds_run)

lemma succeeds_meson: "always_ok M \<Longrightarrow> succeeds (meson M args cwd)"
  unfolding meson_def Let_def
  by (intro succeeds_andthen succeeds_cond succeeds_run) simp_all

lemma succeeds_check_shell:
  "environ M ''MSYSTEM'' = Some ''MINGW64'' \<Longrightarrow> succeeds (check_shell M)"
  by (simp add: check_shell_def)

lemma succeeds_install: "always_ok M \<Longrightarrow> succeeds (install_package_deps M)"
  unfolding install_package_deps_def Let_def
  by (intro succeeds_andthen succeeds_bind succeeds_run)
     (simp_all add: succeeds_andthen succeeds_run)

lemma succeeds_when_cloned: "succeeds c \<Longrightarrow> succeeds b \<Longrightarrow> succeeds (when_cloned c b)"
  unfolding when_cloned_def by (rule succeeds_bind) simp_all

lemma succeeds_fetch: "always_ok M \<Longrightarrow> succeeds (fetch_libraries M)"
  unfolding fetch_libraries_def
  by (intro succeeds_andthen succeeds_when_cloned succeeds_clone succeeds_patch) simp_all

lemma succeeds_build_libraries: "always_ok M \<Longrightarrow> succeeds (build_libraries M)"
  unfolding build_libraries_def
  by (intro succeeds_andthen succeeds_waf succeeds_ac succeeds_meson) simp_all

lemma succeeds_before_ardour:
  "always_ok M \<Longrightarrow> environ M ''MSYSTEM'' = Some ''MINGW64'' \<Longrightarrow> succeeds (before_ardour M)"
  unfolding before_ardour_def
  by (intro succeeds_andthen succeeds_check_shell succeeds_install succeeds_fetch
      succeeds_build_libraries)

lemma succeeds_build_ardour:
  "always_ok M \<Longrightarrow> environ M ''PKG_CONFIG_PATH'' = Some p \<Longrightarrow> succeeds (build_ardour M)"
  unfolding build_ardour_def
  by (intro succeeds_andthen) (simp_all add: succeeds_waf)

lemma main_before_ardour: "main M = andthen (before_ardour M) (build_ardour M)"
  by (simp add: main_def before_ardour_def andthen_assoc)

lemma succeeds_main:
  "always_ok M \<Longrightarrow> environ M ''MSYSTEM'' = Some ''MINGW64''
     \<Longrightarrow> environ M ''PKG_CONFIG_PATH'' = Some p \<Longrightarrow> succeeds (main M)"
  unfolding main_before_ardour
  by (intro succeeds_andthen succeeds_before_ardour succeeds_build_ardour)

lemma always_ok_machine [simp]: "always_ok (machine e present 0 out)"
  by (simp add: always_ok_def machine_def)

lemma machine_simps [simp]:
  "environ (machine e present code out) = e"
  "sep (machine e present code out) = ''/''"
  "pathsep (machine e present code out) = '';''"
  "isdir (machine e present code out) w p = present"
  "subprocess_run (machine e present code out) c w
     = (Some \<lparr>returncode = code, stdout = out\<rparr>, w)"
  "set_list (machine e present code out) = sorted_list_of_set"
  by (simp_all add: machine_def)

subsection \<open>The wrappers\<close>

lemma waf_eq:
  "waf M args cwd waf_script env c cxx
     = andthen (run M (waf_command M (extra_options args) cwd waf_script env c cxx)) (ret ())"
  by (cases c; cases cxx) (simp_all add: waf_def waf_command_def Let_def)

lemma commands_andthen_ret [simp]:
  "commands (trace_of (andthen m (ret a) w)) = commands (trace_of (m w))"
  by (simp add: andthen_def bind_def split: prod.splits sum.splits)

lemma waf_commands:
  "commands (trace_of (waf M args cwd waf_script env c cxx w))
     = [waf_command M (extra_options args) cwd waf_script env c cxx]"
  by (simp add: waf_eq)

text \<open>
  C8. The one command of the waf wrapper: \<^verbatim>\<open>python3\<close> and the path of the tool, then
  \<^verbatim>\<open>configure build install --prefix=/mingw64\<close>, then the C compiler check exactly when
  \<open>c\<close>, the C++ compiler check exactly when \<open>cxx\<close>, then the caller's extra options
  (the first positional argument when it is a list); in the directory \<open>cwd\<close>, with the
  environment of the process overridden by the caller's \<open>env\<close>.
\<close>

theorem waf_command_line:
  "commands (trace_of (waf M args cwd waf_script env c cxx w))
     = [\<lparr>cmd_args = [''python3'', waf_script, ''configure'', ''build'', ''install'',
                     ''--prefix=/mingw64'']
                    @ (if c then [''--check-c-compiler=gcc''] else [])
                    @ (if cxx then [''--check-cxx-compiler=g++''] else [])
                    @ (case args of ListArg extra # _ \<Rightarrow> extra | _ \<Rightarrow> []),
         cmd_cwd = Some cwd,
         cmd_env = Some (environ M ++ env),
         cmd_pipe = False\<rparr>]
   \<and> (\<forall>k. (environ M ++ env) k = (case env k of Some v \<Rightarrow> Some v | None \<Rightarrow> environ M k))"
proof -
  have "(environ M ++ env) k = (case env k of Some v \<Rightarrow> Some v | None \<Rightarrow> environ M k)" for k
    by (simp add: map_add_def)
  then show ?thesis
    by (simp only: waf_commands waf_command_def extra_options_def simp_thms)
qed

lemma build_ardour_unset:
  "environ M ''PKG_CONFIG_PATH'' = None \<Longrightarrow>
   build_ardour M w = (Inl TypeError, w, [Printed (status_text ''Building Ardour...'' ''96'')])"
  by (simp add: build_ardour_def andthen_def bind_def)

text \<open>
  C9. With \<^verbatim>\<open>PKG_CONFIG_PATH\<close> unset, the build of the application prints its status
  line and raises \<open>TypeError\<close> before any command is executed. When the steps before it
  have succeeded, \<open>TypeError\<close> is the result of the whole run: the handler of the top
  level, which catches \<open>ArdentError\<close> only, prints nothing, and the exit status is 1.
\<close>

theorem unset_pkg_config_path_type_error:
  assumes "environ M ''PKG_CONFIG_PATH'' = None"
  shows "build_ardour M w
           = (Inl TypeError, w, [Printed (status_text ''Building Ardour...'' ''96'')])
       \<and> main M = andthen (before_ardour M) (build_ardour M)
       \<and> (result_of (before_ardour M w) = Inr () \<longrightarrow>
            script M w
              = (Inl TypeError, state_of (before_ardour M w),
                 trace_of (before_ardour M w)
                   @ [Printed (status_text ''Building Ardour...'' ''96'')])
          \<and> exit_status (script M w) = 1)"
proof (intro conjI impI)
  show "build_ardour M w
      = (Inl TypeError, w, [Printed (status_text ''Building Ardour...'' ''96'')])"
    by (rule build_ardour_unset[OF assms])
  show "main M = andthen (before_ardour M) (build_ardour M)"
    by (rule main_before_ardour)
  assume ok: "result_of (before_ardour M w) = Inr ()"
  obtain w1 t1 where b: "before_ardour M w = (Inr (), w1, t1)"
    using ok by (cases "before_ardour M w") auto
  have "main M w
      = (Inl TypeError, w1, t1 @ [Printed (status_text ''Building Ardour...'' ''96'')])"
    unfolding main_before_ardour
    using b build_ardour_unset[OF assms, of w1] by (simp add: andthen_def bind_def)
  from script_other[OF this] b
  show s: "script M w
      = (Inl TypeError, state_of (before_ardour M w),
         trace_of (before_ardour M w)
           @ [Printed (status_text ''Building Ardour...'' ''96'')])"
    by simp
  show "exit_status (script M w) = 1"
    by (simp add: s)
qed

theorem unset_pkg_config_path_type_error_witness:
  "environ (machine [''MSYSTEM'' \<mapsto> ''MINGW64''] True 0 installed_text) ''PKG_CONFIG_PATH''
     = None
   \<and> result_of (before_ardour (machine [''MSYSTEM'' \<mapsto> ''MINGW64''] True 0 installed_text) ())
       = Inr ()
   \<and> result_of (script (machine [''MSYSTEM'' \<mapsto> ''MINGW64''] True 0 installed_text) ())
       = Inl TypeError
   \<and> exit_status (script (machine [''MSYSTEM'' \<mapsto> ''MINGW64''] True 0 installed_text) ()) = 1"
proof -
  let ?M = "machine [''MSYSTEM'' \<mapsto> ''MINGW64''] True 0 installed_text"
  have ok: "result_of (before_ardour ?M ()) = Inr ()"
    by (rule succeeds_unit, rule succeeds_before_ardour) simp_all
  have unset: "environ ?M ''PKG_CONFIG_PATH'' = None" by simp
  from unset_pkg_config_path_type_error[OF unset, of "()"] ok unset
  show ?thesis by simp
qed

subsection \<open>Chains of commands\<close>

lemmas io_simps = ret_eq raise_eq status_eq

declare ret_eq [simp del] raise_eq [simp del] status_eq [simp del]

lemma last_failure_run:
  "run M c w = (Inl e, w', t) \<Longrightarrow> failure_of (last t) = Some e"
  by (auto simp: run_eq failure_of_def split: prod.splits option.splits if_splits)

lemma run_cases:
  obtains (fails) e w1 out where "run M c w = (Inl e, w1,
      [Printed (status_text (''> '' @ command_line c) ''94''), Executed c out])"
      "failure_of (Executed c out) = Some e"
  | (goes) out w1 where "run M c w = (Inr out, w1,
      [Printed (status_text (''> '' @ command_line c) ''94''), Executed c (Some out)])"
      "returncode out = 0" "subprocess_run M c w = (Some out, w1)"
proof (cases "subprocess_run M c w")
  case (Pair o1 w1)
  show ?thesis
  proof (cases o1)
    case None
    with Pair show ?thesis
      by (intro fails[of OSError w1 None]) (simp_all add: run_eq failure_of_def)
  next
    case (Some out)
    show ?thesis
    proof (cases "returncode out = 0")
      case True
      with Pair Some show ?thesis by (intro goes[of out w1]) (simp_all add: run_eq)
    next
      case False
      with Pair Some show ?thesis
        by (intro fails[of "ArdentError (failure_message (returncode out) (command_line c))"
              w1 "Some out"])
           (simp_all add: run_eq failure_of_def)
    qed
  qed
qed

text \<open>Running a list of commands one after the other, as a chain of \<^verbatim>\<open>run\<close> calls does.\<close>

lemma run_then:
  assumes "andthen (run M c) k w = (r, w', t)"
  shows "(\<exists>e. r = Inl e \<and> commands t = [c] \<and> failure_of (last t) = Some e)
       \<or> (\<exists>out w1 t2. subprocess_run M c w = (Some out, w1) \<and> returncode out = 0
            \<and> k w1 = (r, w', t2) \<and> commands t = c # commands t2
            \<and> (t2 \<noteq> [] \<longrightarrow> last t = last t2))"
proof (cases rule: run_cases[of M c w])
  case (fails e w1 out)
  with assms show ?thesis by (auto simp: andthen_def bind_def)
next
  case (goes out w1)
  obtain r2 w2 t2 where k: "k w1 = (r2, w2, t2)" by (cases "k w1") auto
  with goes assms show ?thesis by (auto simp: andthen_def bind_def)
qed


lemma andthen_ret_left: "andthen (ret a) k = k"
  by (rule ext) (simp add: andthen_def bind_def ret_eq split: prod.splits)

lemma run_all_append: "run_all M (xs @ ys) = andthen (run_all M xs) (run_all M ys)"
  by (induction xs) (simp_all add: andthen_ret_left andthen_assoc)

lemma run_all_result:
  assumes "run_all M cs w = (r, w', t)"
  shows "(\<exists>rest. cs = commands t @ rest)
       \<and> (r = Inr () \<longrightarrow> commands t = cs)
       \<and> (\<forall>e. r = Inl e \<longrightarrow> commands t \<noteq> [] \<and> failure_of (last t) = Some e)
       \<and> (cs \<noteq> [] \<longrightarrow> commands t \<noteq> [] \<and> hd (commands t) = hd cs)"
  using assms
proof (induction cs arbitrary: w r w' t)
  case Nil
  then show ?case by (auto simp: ret_eq)
next
  case (Cons c cs)
  from Cons.prems have "andthen (run M c) (run_all M cs) w = (r, w', t)" by simp
  from run_then[OF this] show ?case
  proof
    assume "\<exists>e. r = Inl e \<and> commands t = [c] \<and> failure_of (last t) = Some e"
    then show ?thesis by auto
  next
    assume "\<exists>out w1 t2. subprocess_run M c w = (Some out, w1) \<and> returncode out = 0
            \<and> run_all M cs w1 = (r, w', t2) \<and> commands t = c # commands t2
            \<and> (t2 \<noteq> [] \<longrightarrow> last t = last t2)"
    then obtain out w1 t2 where k: "run_all M cs w1 = (r, w', t2)"
      and c: "commands t = c # commands t2" and l: "t2 \<noteq> [] \<longrightarrow> last t = last t2"
      by blast
    from Cons.IH[OF k] have ih: "\<exists>rest. cs = commands t2 @ rest"
      "r = Inr () \<longrightarrow> commands t2 = cs"
      "\<forall>e. r = Inl e \<longrightarrow> commands t2 \<noteq> [] \<and> failure_of (last t2) = Some e"
      by auto
    have ne: "commands t2 \<noteq> [] \<Longrightarrow> t2 \<noteq> []" by auto
    from ih c l ne show ?thesis by auto
  qed
qed

lemma succeeds_run_all: "always_ok M \<Longrightarrow> succeeds (run_all M cs)"
  by (induction cs) (simp_all add: succeeds_andthen succeeds_run)

lemma ac_run_all: "ac M cwd = run_all M [autogen_command M cwd, make_install cwd]"
  by (simp add: ac_def autogen_command_def make_install_def)

lemma waf_run_all:
  "waf M args cwd waf_script env c cxx
     = run_all M [waf_command M (extra_options args) cwd waf_script env c cxx]"
  by (simp add: waf_eq)

lemma patch_then: "andthen (patch M p) k = andthen (run M (patch_command p)) k"
  by (simp add: patch_def patch_command_def andthen_assoc andthen_ret_left)

lemma patches_run_all: "patches M ps = run_all M (map patch_command ps)"
  by (induction ps) (simp_all add: patch_then)

lemma cond_then:
  "andthen (\<lambda>w. if b w then m w else ret () w) k w
     = (if b w then andthen m k w else k w)"
  by (simp add: andthen_def bind_def ret_eq split: prod.splits)

lemma meson_run_all: "meson M args cwd w = run_all M (meson_plan M args cwd w) w"
  by (simp add: meson_def meson_plan_def meson_steps_def meson_command_def Let_def
      cond_then andthen_assoc andthen_ret_left)


lemma msys_env_simps [simp]:
  "msys_env ''MSYSTEM'' = Some ''MINGW64''"
  "msys_env ''PKG_CONFIG_PATH'' = Some ''/mingw64/lib/pkgconfig''"
  by (simp_all add: msys_env_def)

subsection \<open>Where a chain of commands stops\<close>

lemma stops_at_failure:
  assumes "sound m" and "m w = (r, w', t)"
  shows "\<forall>i c out. i < length t \<and> t ! i = Executed c (Some out) \<and> returncode out \<noteq> 0 \<longrightarrow>
           Suc i = length t
         \<and> r = Inl (ArdentError
                 (failure_message (returncode out) (str_join '' '' (cmd_args c))))"
    and "\<forall>i c. i < length t \<and> t ! i = Executed c None \<longrightarrow>
           Suc i = length t \<and> r = Inl OSError"
proof -
  show "\<forall>i c out. i < length t \<and> t ! i = Executed c (Some out) \<and> returncode out \<noteq> 0 \<longrightarrow>
           Suc i = length t
         \<and> r = Inl (ArdentError
                 (failure_message (returncode out) (str_join '' '' (cmd_args c))))"
  proof (intro allI impI)
    fix i c out
    assume a: "i < length t \<and> t ! i = Executed c (Some out) \<and> returncode out \<noteq> 0"
    then have "failure_of (t ! i)
        = Some (ArdentError (failure_message (returncode out) (str_join '' '' (cmd_args c))))"
      by (simp add: failure_of_def command_line_def)
    from soundD[OF assms conjunct1[OF a] this]
    show "Suc i = length t
        \<and> r = Inl (ArdentError
                (failure_message (returncode out) (str_join '' '' (cmd_args c))))"
      by simp
  qed
  show "\<forall>i c. i < length t \<and> t ! i = Executed c None \<longrightarrow>
           Suc i = length t \<and> r = Inl OSError"
  proof (intro allI impI)
    fix i c
    assume a: "i < length t \<and> t ! i = Executed c None"
    then have "failure_of (t ! i) = Some OSError" by (simp add: failure_of_def)
    from soundD[OF assms conjunct1[OF a] this]
    show "Suc i = length t \<and> r = Inl OSError" by simp
  qed
qed

lemma returns_without_failure:
  assumes err: "\<forall>e. r = Inl e \<longrightarrow> failure_of (last t) = Some e" and ne: "t \<noteq> []"
    and zero: "\<forall>i c out. i < length t \<and> t ! i = Executed c out \<longrightarrow>
                 (\<exists>x. out = Some x \<and> returncode x = 0)"
  shows "r \<noteq> Inl e"
proof
  assume "r = Inl e"
  with err have f: "failure_of (last t) = Some e" by simp
  from ne have l: "last t = t ! (length t - 1)" "length t - 1 < length t"
    by (simp_all add: last_conv_nth)
  show False
  proof (cases "last t")
    case (Printed s)
    with f show False by (simp add: failure_of_def)
  next
    case (Executed c out)
    with zero l obtain x where "out = Some x" "returncode x = 0" by metis
    with Executed f show False by (simp add: failure_of_def)
  qed
qed

lemma commands_nonempty: "commands t \<noteq> [] \<Longrightarrow> t \<noteq> []"
  by auto


subsection \<open>The meson wrapper\<close>

lemma meson_setup_not_step:
  "meson_command [''setup'', ''build''] cwd \<notin> set (meson_steps extra build)"
  by (simp add: meson_steps_def meson_command_def)

text \<open>
  C7, as amended. The setup step is executed exactly when the build directory does not
  exist. The commands executed are the commands of the plan (setup if needed, then
  configure with the caller's options, compile, install, the last three in the build
  directory), in this order, up to the first that fails. A command that exits with a
  status other than 0, or that cannot be started, is the last event of the wrapper and its
  error is the result: no later step is executed. When the wrapper returns, all the
  commands of the plan have been executed; it returns whenever every command it executes
  exits with status 0.
\<close>

theorem meson_steps_in_order:
  "let out = meson M args cwd w;
       build = cwd @ sep M @ ''build'';
       setup = meson_command [''setup'', ''build''] cwd;
       plan = (if isdir M w build then [] else [setup])
              @ [meson_command (''configure'' # extra_options args) build,
                 meson_command [''compile''] build,
                 meson_command [''install''] build]
   in (setup \<in> set (commands (trace_of out)) \<longleftrightarrow> \<not> isdir M w build)
    \<and> commands (trace_of out) \<noteq> []
    \<and> (\<exists>rest. plan = commands (trace_of out) @ rest)
    \<and> (result_of out = Inr () \<longrightarrow> commands (trace_of out) = plan)
    \<and> (\<forall>e. result_of out = Inl e \<longrightarrow> failure_of (last (trace_of out)) = Some e)
    \<and> (always_ok M \<longrightarrow> result_of out = Inr ())
    \<and> (\<forall>i c x. i < length (trace_of out) \<and> trace_of out ! i = Executed c (Some x)
           \<and> returncode x \<noteq> 0 \<longrightarrow>
         Suc i = length (trace_of out)
         \<and> result_of out
             = Inl (ArdentError (failure_message (returncode x) (str_join '' '' (cmd_args c)))))
    \<and> (\<forall>i c. i < length (trace_of out) \<and> trace_of out ! i = Executed c None \<longrightarrow>
         Suc i = length (trace_of out) \<and> result_of out = Inl OSError)
    \<and> ((\<forall>i c x. i < length (trace_of out) \<and> trace_of out ! i = Executed c x \<longrightarrow>
            (\<exists>y. x = Some y \<and> returncode y = 0)) \<longrightarrow>
         result_of out = Inr () \<and> commands (trace_of out) = plan)"
proof -
  let ?build = "cwd @ sep M @ ''build''"
  let ?first = "meson_command [''setup'', ''build''] cwd"
  let ?plan = "meson_plan M args cwd w"
  obtain r w' t where out: "meson M args cwd w = (r, w', t)"
    by (cases "meson M args cwd w") auto
  then have ra: "run_all M ?plan w = (r, w', t)" by (simp add: meson_run_all)
  have ne: "?plan \<noteq> []" by (simp add: meson_plan_def meson_steps_def)
  note R = run_all_result[OF ra]
  from R[THEN conjunct1] obtain rest where pre: "?plan = commands t @ rest" ..
  from R[THEN conjunct2, THEN conjunct1] have full: "r = Inr () \<longrightarrow> commands t = ?plan" .
  from R[THEN conjunct2, THEN conjunct2, THEN conjunct1]
  have err: "\<forall>e. r = Inl e \<longrightarrow> failure_of (last t) = Some e" by simp
  from R[THEN conjunct2, THEN conjunct2, THEN conjunct2] ne
  have hd: "commands t \<noteq> []" "hd (commands t) = hd ?plan" by simp_all
  have su: "?first \<in> set (commands t) \<longleftrightarrow> \<not> isdir M w ?build"
  proof (cases "isdir M w ?build")
    case True
    then have "?plan = meson_steps (extra_options args) ?build" by (simp add: meson_plan_def)
    with pre have "set (commands t) \<subseteq> set (meson_steps (extra_options args) ?build)"
      by (metis set_append Un_upper1)
    with meson_setup_not_step True show ?thesis by auto
  next
    case False
    then have "hd ?plan = ?first" by (simp add: meson_plan_def)
    with hd have "?first \<in> set (commands t)" by (metis hd_in_set)
    with False show ?thesis by simp
  qed
  have ok: "always_ok M \<longrightarrow> r = Inr ()"
    using succeeds_unit[OF succeeds_meson, of M args cwd w] out by auto
  note stop = stops_at_failure[OF sound_meson out]
  have quiet: "(\<forall>i c x. i < length t \<and> t ! i = Executed c x \<longrightarrow>
            (\<exists>y. x = Some y \<and> returncode y = 0)) \<longrightarrow> r = Inr () \<and> commands t = ?plan"
  proof
    assume z: "\<forall>i c x. i < length t \<and> t ! i = Executed c x \<longrightarrow>
            (\<exists>y. x = Some y \<and> returncode y = 0)"
    from returns_without_failure[OF err commands_nonempty[OF hd(1)] z]
    have "r = Inr ()" by (cases r) auto
    with full show "r = Inr () \<and> commands t = ?plan" by simp
  qed
  have plan: "?plan = (if isdir M w ?build then [] else [?first])
              @ [meson_command (''configure'' # extra_options args) ?build,
                 meson_command [''compile''] ?build,
                 meson_command [''install''] ?build]"
    by (simp add: meson_plan_def meson_steps_def)
  show ?thesis
    unfolding Let_def out plan[symmetric] fst_conv snd_conv
    using su hd(1) pre full err ok stop quiet by (intro conjI) blast+
qed

lemma failing_run:
  "code \<noteq> 0 \<Longrightarrow>
   run (machine e present code out) c ()
     = (Inl (ArdentError (failure_message code (command_line c))), (),
        [Printed (status_text (''> '' @ command_line c) ''94''),
         Executed c (Some \<lparr>returncode = code, stdout = out\<rparr>)])"
  by (simp add: run_eq)

lemma failing_meson:
  "meson (machine msys_env False 1 []) [ListArg [''-Dcxx=true'']] ''deps/lv2kit'' ()
     = (Inl (ArdentError (failure_message 1 ''meson setup build'')), (),
        [Printed (status_text ''> meson setup build'' ''94''),
         Executed (meson_command [''setup'', ''build''] ''deps/lv2kit'')
           (Some \<lparr>returncode = 1, stdout = []\<rparr>)])"
  by (simp add: meson_run_all meson_plan_def andthen_def bind_def failing_run
      meson_command_def extra_options_def command_line_def)

theorem meson_steps_in_order_witness:
  "always_ok (machine msys_env False 0 [])
   \<and> result_of (meson (machine msys_env False 0 []) [ListArg [''-Dcxx=true'']]
        ''deps/lv2kit'' ()) = Inr ()
   \<and> commands (trace_of (meson (machine msys_env False 0 []) [ListArg [''-Dcxx=true'']]
        ''deps/lv2kit'' ()))
       = [meson_command [''setup'', ''build''] ''deps/lv2kit'',
          meson_command [''configure'', ''-Dcxx=true''] ''deps/lv2kit/build'',
          meson_command [''compile''] ''deps/lv2kit/build'',
          meson_command [''install''] ''deps/lv2kit/build'']
   \<and> trace_of (meson (machine msys_env False 1 []) [ListArg [''-Dcxx=true'']]
        ''deps/lv2kit'' ()) ! 1
       = Executed (meson_command [''setup'', ''build''] ''deps/lv2kit'')
           (Some \<lparr>returncode = 1, stdout = []\<rparr>)
   \<and> length (trace_of (meson (machine msys_env False 1 []) [ListArg [''-Dcxx=true'']]
        ''deps/lv2kit'' ())) = 2
   \<and> result_of (meson (machine msys_env False 1 []) [ListArg [''-Dcxx=true'']]
        ''deps/lv2kit'' ())
       = Inl (ArdentError (failure_message 1 ''meson setup build''))"
proof -
  have a: "always_ok (machine msys_env False 0 [])
   \<and> result_of (meson (machine msys_env False 0 []) [ListArg [''-Dcxx=true'']]
        ''deps/lv2kit'' ()) = Inr ()
   \<and> commands (trace_of (meson (machine msys_env False 0 []) [ListArg [''-Dcxx=true'']]
        ''deps/lv2kit'' ()))
       = [meson_command [''setup'', ''build''] ''deps/lv2kit'',
          meson_command [''configure'', ''-Dcxx=true''] ''deps/lv2kit/build'',
          meson_command [''compile''] ''deps/lv2kit/build'',
          meson_command [''install''] ''deps/lv2kit/build'']"
    using meson_steps_in_order[of "machine msys_env False 0 []" "[ListArg [''-Dcxx=true'']]"
        "''deps/lv2kit''" "()"]
    by (simp add: Let_def extra_options_def)
  let ?out = "meson (machine msys_env False 1 []) [ListArg [''-Dcxx=true'']] ''deps/lv2kit'' ()"
  have t: "trace_of ?out ! 1
      = Executed (meson_command [''setup'', ''build''] ''deps/lv2kit'')
          (Some \<lparr>returncode = 1, stdout = []\<rparr>)"
    "length (trace_of ?out) = 2"
    by (simp_all add: failing_meson)
  have "\<forall>i c x. i < length (trace_of ?out) \<and> trace_of ?out ! i = Executed c (Some x)
           \<and> returncode x \<noteq> 0 \<longrightarrow>
         Suc i = length (trace_of ?out)
         \<and> result_of ?out
             = Inl (ArdentError (failure_message (returncode x) (str_join '' '' (cmd_args c))))"
    using meson_steps_in_order[of "machine msys_env False 1 []" "[ListArg [''-Dcxx=true'']]"
        "''deps/lv2kit''" "()"]
    unfolding Let_def by blast
  from this[rule_format, of 1 "meson_command [''setup'', ''build''] ''deps/lv2kit''"
      "\<lparr>returncode = 1, stdout = []\<rparr>"] t
  have "result_of ?out = Inl (ArdentError (failure_message 1 ''meson setup build''))"
    by (simp add: meson_command_def)
  with a t show ?thesis by simp
qed

theorem meson_steps_always_counterexample:
  "commands (trace_of (meson (machine msys_env False 1 []) [ListArg [''-Dcxx=true'']]
      ''deps/lv2kit'' ()))
     = [meson_command [''setup'', ''build''] ''deps/lv2kit'']
   \<and> meson_command [''configure'', ''-Dcxx=true''] ''deps/lv2kit/build''
       \<notin> set (commands (trace_of (meson (machine msys_env False 1 [])
             [ListArg [''-Dcxx=true'']] ''deps/lv2kit'' ())))"
  by (simp add: meson_run_all meson_plan_def andthen_def bind_def failing_run
      meson_command_def extra_options_def)

subsection \<open>The repository fetcher\<close>

lemma clone_present:
  "isdir M w (target_dir @ sep M @ last (str_split CHR ''/'' url)) \<Longrightarrow>
   clone M url target_dir w = (Inr False, w, [])"
  by (simp add: clone_def ret_eq)

lemma clone_absent:
  "\<not> isdir M w (target_dir @ sep M @ last (str_split CHR ''/'' url)) \<Longrightarrow>
   clone M url target_dir w = andthen (run M (git_clone url target_dir)) (ret True) w"
  by (simp add: clone_def git_clone_def)

lemma fetch_one_present:
  "isdir M w (checkout M url) \<Longrightarrow> fetch_one M url ps w = (Inr (), w, [])"
  by (simp add: fetch_one_def when_cloned_def bind_def clone_present checkout_def ret_eq)

lemma bind_andthen_ret: "bind (andthen m (ret a)) f = andthen m (f a)"
  by (rule ext) (simp add: andthen_def bind_def ret_eq split: prod.splits sum.splits)

lemma fetch_one_absent:
  assumes "\<not> isdir M w (checkout M url)"
  shows "fetch_one M url ps w = run_all M (git_clone url ''deps'' # map patch_command ps) w"
proof -
  from assms have c: "clone M url ''deps'' w
      = andthen (run M (git_clone url ''deps'')) (ret True) w"
    by (simp add: clone_absent checkout_def)
  have "fetch_one M url ps w
      = bind (andthen (run M (git_clone url ''deps'')) (ret True))
          (\<lambda>fresh. if fresh then patches M ps else ret ()) w"
    unfolding fetch_one_def when_cloned_def by (simp add: bind_def c)
  then show ?thesis by (simp add: bind_andthen_ret patches_run_all)
qed

lemma when_cloned_nothing: "andthen (when_cloned c (ret ())) k = andthen c k"
  by (rule ext) (simp add: when_cloned_def andthen_def bind_def ret_eq
      split: prod.splits sum.splits)

lemma fetch_libraries_table:
  "fetch_libraries M
     = andthen (status ''Fetching libraries...'' ''96'') (fetch_all M fetch_list)"
  by (simp add: fetch_libraries_def fetch_list_def fetch_one_def when_cloned_nothing
      andthen_ret_unit)

lemma clone_command:
  assumes "\<not> isdir M w (target_dir @ sep M @ last (str_split CHR ''/'' url))"
  shows "commands (trace_of (clone M url target_dir w)) = [git_clone url target_dir]"
    and "result_of (clone M url target_dir w) = Inr True \<longleftrightarrow>
          (\<exists>out. fst (subprocess_run M (git_clone url target_dir) w) = Some out
             \<and> returncode out = 0)"
    and "result_of (clone M url target_dir w) \<noteq> Inr False"
  by (auto simp: clone_absent[OF assms] andthen_def bind_def run_eq ret_eq
      split: prod.splits option.splits)

lemma sound_patches [simp]: "sound (patches M ps)"
  by (induction ps) (simp_all add: sound_andthen)

lemma sound_fetch_one [simp]: "sound (fetch_one M url ps)"
  unfolding fetch_one_def by (rule sound_when_cloned) simp_all

lemma clone_failed:
  assumes "\<not> isdir M w (target_dir @ sep M @ last (str_split CHR ''/'' url))"
    and "fst (subprocess_run M (git_clone url target_dir) w) = Some out"
    and "returncode out \<noteq> 0"
  shows "result_of (clone M url target_dir w)
       = Inl (ArdentError (failure_message (returncode out)
               (str_join '' '' (cmd_args (git_clone url target_dir)))))"
  using assms(2,3)
  by (cases "subprocess_run M (git_clone url target_dir) w")
     (simp add: clone_absent[OF assms(1)] andthen_def bind_def run_eq command_line_def)

lemma clone_not_started:
  assumes "\<not> isdir M w (target_dir @ sep M @ last (str_split CHR ''/'' url))"
    and "fst (subprocess_run M (git_clone url target_dir) w) = None"
  shows "result_of (clone M url target_dir w) = Inl OSError"
  using assms(2)
  by (cases "subprocess_run M (git_clone url target_dir) w")
     (simp add: clone_absent[OF assms(1)] andthen_def bind_def run_eq)

text \<open>
  C4, as amended. \<^verbatim>\<open>fetch_libraries\<close> is its status line followed by the table
  \<open>fetch_list\<close>, one dependency after the other. For a dependency with its patches:
  when its directory exists, nothing is executed and \<^verbatim>\<open>clone\<close> returns False; when
  it does not exist, the recursive clone is the one command of \<^verbatim>\<open>clone\<close>, which
  returns True exactly when that command exits with status 0 and raises the error of the
  command otherwise, and the commands executed for the dependency are the clone followed
  by its patches in the order of the table, up to the first that fails. A command that
  exits with a status other than 0, or that cannot be started, is the last event of the
  step and its error is the result: no patch follows a failed clone or a failed patch.
  When the step returns, the clone and all the patches have been executed, once each; it
  returns whenever every command it executes exits with status 0.
\<close>

theorem fetch_dependency:
  "fetch_libraries M = andthen (status ''Fetching libraries...'' ''96'') (fetch_all M fetch_list)
   \<and> (isdir M w (''deps'' @ sep M @ last (str_split CHR ''/'' url)) \<longrightarrow>
         clone M url ''deps'' w = (Inr False, w, [])
       \<and> fetch_one M url ps w = (Inr (), w, []))
   \<and> (\<not> isdir M w (''deps'' @ sep M @ last (str_split CHR ''/'' url)) \<longrightarrow>
         commands (trace_of (clone M url ''deps'' w)) = [git_clone url ''deps'']
       \<and> (result_of (clone M url ''deps'' w) = Inr True \<longleftrightarrow>
            (\<exists>out. fst (subprocess_run M (git_clone url ''deps'') w) = Some out
               \<and> returncode out = 0))
       \<and> result_of (clone M url ''deps'' w) \<noteq> Inr False
       \<and> (let out = fetch_one M url ps w;
               plan = git_clone url ''deps'' # map patch_command ps
           in hd (commands (trace_of out)) = git_clone url ''deps''
            \<and> commands (trace_of out) \<noteq> []
            \<and> (\<exists>rest. plan = commands (trace_of out) @ rest)
            \<and> (result_of out = Inr () \<longrightarrow> commands (trace_of out) = plan)
            \<and> (\<forall>e. result_of out = Inl e \<longrightarrow> failure_of (last (trace_of out)) = Some e)
            \<and> (always_ok M \<longrightarrow> result_of out = Inr ()))
       \<and> (\<forall>out. fst (subprocess_run M (git_clone url ''deps'') w) = Some out
             \<and> returncode out \<noteq> 0 \<longrightarrow>
           result_of (clone M url ''deps'' w)
             = Inl (ArdentError (failure_message (returncode out)
                     (str_join '' '' (cmd_args (git_clone url ''deps''))))))
       \<and> (fst (subprocess_run M (git_clone url ''deps'') w) = None \<longrightarrow>
           result_of (clone M url ''deps'' w) = Inl OSError)
       \<and> (let out = fetch_one M url ps w;
               plan = git_clone url ''deps'' # map patch_command ps
           in (\<forall>i c x. i < length (trace_of out) \<and> trace_of out ! i = Executed c (Some x)
                  \<and> returncode x \<noteq> 0 \<longrightarrow>
                Suc i = length (trace_of out)
                \<and> result_of out
                    = Inl (ArdentError
                        (failure_message (returncode x) (str_join '' '' (cmd_args c)))))
            \<and> (\<forall>i c. i < length (trace_of out) \<and> trace_of out ! i = Executed c None \<longrightarrow>
                Suc i = length (trace_of out) \<and> result_of out = Inl OSError)
            \<and> ((\<forall>i c x. i < length (trace_of out) \<and> trace_of out ! i = Executed c x \<longrightarrow>
                   (\<exists>y. x = Some y \<and> returncode y = 0)) \<longrightarrow>
                result_of out = Inr () \<and> commands (trace_of out) = plan)))"
proof (intro conjI impI)
  show "fetch_libraries M
      = andthen (status ''Fetching libraries...'' ''96'') (fetch_all M fetch_list)"
    by (rule fetch_libraries_table)
next
  assume p: "isdir M w (''deps'' @ sep M @ last (str_split CHR ''/'' url))"
  show "clone M url ''deps'' w = (Inr False, w, [])" by (rule clone_present[OF p])
  from p show "fetch_one M url ps w = (Inr (), w, [])"
    by (simp add: fetch_one_present checkout_def)
next
  assume a: "\<not> isdir M w (''deps'' @ sep M @ last (str_split CHR ''/'' url))"
  show "commands (trace_of (clone M url ''deps'' w)) = [git_clone url ''deps'']"
    by (rule clone_command(1)[OF a])
  show "result_of (clone M url ''deps'' w) = Inr True \<longleftrightarrow>
      (\<exists>out. fst (subprocess_run M (git_clone url ''deps'') w) = Some out
         \<and> returncode out = 0)"
    by (rule clone_command(2)[OF a])
  show "result_of (clone M url ''deps'' w) \<noteq> Inr False"
    by (rule clone_command(3)[OF a])
  show "\<forall>out. fst (subprocess_run M (git_clone url ''deps'') w) = Some out
             \<and> returncode out \<noteq> 0 \<longrightarrow>
           result_of (clone M url ''deps'' w)
             = Inl (ArdentError (failure_message (returncode out)
                     (str_join '' '' (cmd_args (git_clone url ''deps'')))))"
    using clone_failed[OF a] by blast
  let ?plan = "git_clone url ''deps'' # map patch_command ps"
  obtain r w' t where out: "fetch_one M url ps w = (r, w', t)"
    by (cases "fetch_one M url ps w") auto
  from a have "\<not> isdir M w (checkout M url)" by (simp add: checkout_def)
  from fetch_one_absent[OF this] out have ra: "run_all M ?plan w = (r, w', t)" by simp
  note R = run_all_result[OF ra]
  from R[THEN conjunct1] obtain rest where pre: "?plan = commands t @ rest" ..
  from R[THEN conjunct2, THEN conjunct1] have full: "r = Inr () \<longrightarrow> commands t = ?plan" .
  from R[THEN conjunct2, THEN conjunct2, THEN conjunct1]
  have err: "\<forall>e. r = Inl e \<longrightarrow> failure_of (last t) = Some e" by simp
  from R[THEN conjunct2, THEN conjunct2, THEN conjunct2]
  have first: "commands t \<noteq> []" "hd (commands t) = git_clone url ''deps''" by simp_all
  have ok: "always_ok M \<longrightarrow> r = Inr ()"
  proof
    assume "always_ok M"
    from succeeds_unit[OF succeeds_run_all[OF this], of ?plan w] ra show "r = Inr ()"
      by simp
  qed
  show "let out = fetch_one M url ps w;
            plan = git_clone url ''deps'' # map patch_command ps
        in hd (commands (trace_of out)) = git_clone url ''deps''
         \<and> commands (trace_of out) \<noteq> []
         \<and> (\<exists>rest. plan = commands (trace_of out) @ rest)
         \<and> (result_of out = Inr () \<longrightarrow> commands (trace_of out) = plan)
         \<and> (\<forall>e. result_of out = Inl e \<longrightarrow> failure_of (last (trace_of out)) = Some e)
         \<and> (always_ok M \<longrightarrow> result_of out = Inr ())"
    unfolding Let_def out fst_conv snd_conv
    using first pre full err ok by blast
  note stop = stops_at_failure[OF sound_fetch_one out]
  have quiet: "(\<forall>i c x. i < length t \<and> t ! i = Executed c x \<longrightarrow>
            (\<exists>y. x = Some y \<and> returncode y = 0)) \<longrightarrow> r = Inr () \<and> commands t = ?plan"
  proof
    assume z: "\<forall>i c x. i < length t \<and> t ! i = Executed c x \<longrightarrow>
            (\<exists>y. x = Some y \<and> returncode y = 0)"
    from returns_without_failure[OF err commands_nonempty[OF first(1)] z]
    have "r = Inr ()" by (cases r) auto
    with full show "r = Inr () \<and> commands t = ?plan" by simp
  qed
  show "let out = fetch_one M url ps w;
            plan = git_clone url ''deps'' # map patch_command ps
        in (\<forall>i c x. i < length (trace_of out) \<and> trace_of out ! i = Executed c (Some x)
               \<and> returncode x \<noteq> 0 \<longrightarrow>
             Suc i = length (trace_of out)
             \<and> result_of out
                 = Inl (ArdentError
                     (failure_message (returncode x) (str_join '' '' (cmd_args c)))))
         \<and> (\<forall>i c. i < length (trace_of out) \<and> trace_of out ! i = Executed c None \<longrightarrow>
             Suc i = length (trace_of out) \<and> result_of out = Inl OSError)
         \<and> ((\<forall>i c x. i < length (trace_of out) \<and> trace_of out ! i = Executed c x \<longrightarrow>
                (\<exists>y. x = Some y \<and> returncode y = 0)) \<longrightarrow>
             result_of out = Inr () \<and> commands (trace_of out) = plan)"
    unfolding Let_def out fst_conv snd_conv
    using stop quiet by (intro conjI) blast+
next
  assume a: "\<not> isdir M w (''deps'' @ sep M @ last (str_split CHR ''/'' url))"
  assume "fst (subprocess_run M (git_clone url ''deps'') w) = None"
  from clone_not_started[OF a this]
  show "result_of (clone M url ''deps'' w) = Inl OSError" .
qed

lemma failing_fetch_one:
  "fetch_one (machine msys_env False 1 []) ''git://git.ardour.org/ardour/ardour''
      [''ardour-wscript.patch'', ''main.cc.patch'', ''pbd.cc.patch''] ()
     = (Inl (ArdentError (failure_message 1
          ''git clone --recurse-submodules git://git.ardour.org/ardour/ardour'')), (),
        [Printed (status_text
           ''> git clone --recurse-submodules git://git.ardour.org/ardour/ardour'' ''94''),
         Executed (git_clone ''git://git.ardour.org/ardour/ardour'' ''deps'')
           (Some \<lparr>returncode = 1, stdout = []\<rparr>)])"
  by (simp add: fetch_one_absent checkout_def andthen_def bind_def failing_run
      git_clone_def command_line_def)

theorem fetch_dependency_witness:
  "isdir (machine msys_env True 0 []) () (''deps'' @ sep (machine msys_env True 0 []) @
      last (str_split CHR ''/'' ''git://git.ardour.org/ardour/ardour''))
   \<and> fetch_one (machine msys_env True 0 []) ''git://git.ardour.org/ardour/ardour''
        [''ardour-wscript.patch'', ''main.cc.patch'', ''pbd.cc.patch''] () = (Inr (), (), [])
   \<and> \<not> isdir (machine msys_env False 0 []) () (''deps'' @ sep (machine msys_env False 0 []) @
      last (str_split CHR ''/'' ''git://git.ardour.org/ardour/ardour''))
   \<and> always_ok (machine msys_env False 0 [])
   \<and> result_of (clone (machine msys_env False 0 []) ''git://git.ardour.org/ardour/ardour''
        ''deps'' ()) = Inr True
   \<and> commands (trace_of (fetch_one (machine msys_env False 0 [])
        ''git://git.ardour.org/ardour/ardour''
        [''ardour-wscript.patch'', ''main.cc.patch'', ''pbd.cc.patch''] ()))
       = [git_clone ''git://git.ardour.org/ardour/ardour'' ''deps'',
          patch_command ''ardour-wscript.patch'', patch_command ''main.cc.patch'',
          patch_command ''pbd.cc.patch'']
   \<and> trace_of (fetch_one (machine msys_env False 1 [])
        ''git://git.ardour.org/ardour/ardour''
        [''ardour-wscript.patch'', ''main.cc.patch'', ''pbd.cc.patch''] ()) ! 1
       = Executed (git_clone ''git://git.ardour.org/ardour/ardour'' ''deps'')
           (Some \<lparr>returncode = 1, stdout = []\<rparr>)
   \<and> result_of (fetch_one (machine msys_env False 1 [])
        ''git://git.ardour.org/ardour/ardour''
        [''ardour-wscript.patch'', ''main.cc.patch'', ''pbd.cc.patch''] ())
       = Inl (ArdentError (failure_message 1
            ''git clone --recurse-submodules git://git.ardour.org/ardour/ardour''))"
proof -
  let ?url = "''git://git.ardour.org/ardour/ardour''"
  let ?ps = "[''ardour-wscript.patch'', ''main.cc.patch'', ''pbd.cc.patch'']"
  have a: "isdir (machine msys_env True 0 []) () (''deps'' @ sep (machine msys_env True 0 []) @
      last (str_split CHR ''/'' ?url))
   \<and> fetch_one (machine msys_env True 0 []) ?url ?ps () = (Inr (), (), [])
   \<and> \<not> isdir (machine msys_env False 0 []) () (''deps'' @ sep (machine msys_env False 0 []) @
      last (str_split CHR ''/'' ?url))
   \<and> always_ok (machine msys_env False 0 [])
   \<and> result_of (clone (machine msys_env False 0 []) ?url ''deps'' ()) = Inr True
   \<and> commands (trace_of (fetch_one (machine msys_env False 0 []) ?url ?ps ()))
       = [git_clone ?url ''deps'',
          patch_command ''ardour-wscript.patch'', patch_command ''main.cc.patch'',
          patch_command ''pbd.cc.patch'']"
    using fetch_dependency[of "machine msys_env True 0 []" "()" ?url ?ps]
      fetch_dependency[of "machine msys_env False 0 []" "()" ?url ?ps]
    by (simp add: Let_def)
  let ?out = "fetch_one (machine msys_env False 1 []) ?url ?ps ()"
  have t: "trace_of ?out ! 1
      = Executed (git_clone ?url ''deps'') (Some \<lparr>returncode = 1, stdout = []\<rparr>)"
    "length (trace_of ?out) = 2"
    by (simp_all add: failing_fetch_one)
  have absent: "\<not> isdir (machine msys_env False 1 []) ()
      (''deps'' @ sep (machine msys_env False 1 []) @ last (str_split CHR ''/'' ?url))"
    by simp
  have "\<forall>i c x. i < length (trace_of ?out) \<and> trace_of ?out ! i = Executed c (Some x)
           \<and> returncode x \<noteq> 0 \<longrightarrow>
         Suc i = length (trace_of ?out)
         \<and> result_of ?out
             = Inl (ArdentError (failure_message (returncode x) (str_join '' '' (cmd_args c))))"
    using fetch_dependency[of "machine msys_env False 1 []" "()" ?url ?ps] absent
    unfolding Let_def by blast
  from this[rule_format, of 1 "git_clone ?url ''deps''" "\<lparr>returncode = 1, stdout = []\<rparr>"] t
  have "result_of ?out = Inl (ArdentError (failure_message 1
            ''git clone --recurse-submodules git://git.ardour.org/ardour/ardour''))"
    by (simp add: git_clone_def)
  with a t show ?thesis by simp
qed

theorem clone_returns_true_counterexample:
  "\<not> isdir (machine msys_env False 128 []) ()
       (''deps'' @ sep (machine msys_env False 128 []) @
          last (str_split CHR ''/'' ''https://github.com/jackaudio/jack2''))
   \<and> clone (machine msys_env False 128 []) ''https://github.com/jackaudio/jack2'' ''deps'' ()
       = (Inl (ArdentError (failure_message 128
            (command_line (git_clone ''https://github.com/jackaudio/jack2'' ''deps'')))), (),
          [Printed (status_text
             (''> '' @ command_line (git_clone ''https://github.com/jackaudio/jack2'' ''deps''))
             ''94''),
           Executed (git_clone ''https://github.com/jackaudio/jack2'' ''deps'')
             (Some \<lparr>returncode = 128, stdout = []\<rparr>)])
   \<and> result_of (clone (machine msys_env False 128 [])
         ''https://github.com/jackaudio/jack2'' ''deps'' ()) \<noteq> Inr True"
  by (simp add: clone_absent andthen_def bind_def failing_run)

subsection \<open>The package installer\<close>

lemma finite_SYSTEM_DEPENDENCIES [simp]: "finite SYSTEM_DEPENDENCIES"
  by (simp add: SYSTEM_DEPENDENCIES_def)

lemma finite_dependencies [simp]: "finite (SYSTEM_DEPENDENCIES - X)"
  by simp

lemma empty_not_dependency: "[] \<notin> SYSTEM_DEPENDENCIES"
  by (simp add: SYSTEM_DEPENDENCIES_def dependency_list_def mingw_packages_def
      msys_packages_def)

lemma patch_is_dependency: "''patch'' \<in> SYSTEM_DEPENDENCIES"
  by (simp add: SYSTEM_DEPENDENCIES_def dependency_list_def msys_packages_def)

lemma status_then:
  "andthen (status m c) k w
     = (case k w of (r, w', t) \<Rightarrow> (r, w', Printed (status_text m c) # t))"
  by (simp add: andthen_def bind_def status_eq)

lemma status_then_commands [simp]:
  "commands (trace_of (andthen (status m c) k w)) = commands (trace_of (k w))"
  by (simp add: status_then split: prod.splits)

lemma run_status_commands:
  "commands (trace_of (andthen (run M c) (status m col) w)) = [c]"
  by (cases rule: run_cases[of M c w]) (simp_all add: andthen_def bind_def status_eq)

lemma bind_commands:
  "m w = (Inr a, w1, t1) \<Longrightarrow>
   commands (trace_of (bind m f w)) = commands t1 @ commands (trace_of (f a w1))"
  by (simp add: bind_def split: prod.splits)

lemma bind_commands_failed:
  "m w = (Inl e, w1, t1) \<Longrightarrow> commands (trace_of (bind m f w)) = commands t1"
  by (simp add: bind_def)

lemma install_commands:
  assumes "subprocess_run M pacman_query w = (Some out, w1)" and "returncode out = 0"
  shows "commands (trace_of (install_package_deps M w))
       = (if SYSTEM_DEPENDENCIES - set (str_split (CHR 0x0A) (stdout out)) = {}
          then [pacman_query]
          else [pacman_query,
                pacman_install (set_list M
                  (SYSTEM_DEPENDENCIES - set (str_split (CHR 0x0A) (stdout out))))])"
proof -
  let ?D = "SYSTEM_DEPENDENCIES - set (str_split (CHR 0x0A) (stdout out))"
  let ?f = "\<lambda>out.
          let packages = set (str_split (CHR 0x0A) (stdout out));
              to_install = SYSTEM_DEPENDENCIES - packages
          in if to_install \<noteq> {}
             then andthen (status ''Installing required dependencies...'' ''96'')
                   (andthen
                     (run M \<lparr>cmd_args = [''pacman'', ''-S'', ''--noconfirm'', ''--needed'']
                                          @ set_list M to_install,
                             cmd_cwd = None, cmd_env = None, cmd_pipe = False\<rparr>)
                     (status ''Installed all required system dependencies.'' ''96''))
             else status ''All system dependencies have already been installed.'' ''96''"
  have q: "run M pacman_query w
      = (Inr out, w1,
         [Printed (status_text (''> '' @ command_line pacman_query) ''94''),
          Executed pacman_query (Some out)])"
    using assms by (simp add: run_eq)
  have f: "commands (trace_of (?f out w1))
      = (if ?D = {} then [] else [pacman_install (set_list M ?D)])"
  proof (cases "?D = {}")
    case True
    then show ?thesis by (simp add: Let_def status_eq)
  next
    case False
    have "commands (trace_of (andthen (status ''Installing required dependencies...'' ''96'')
              (andthen (run M (pacman_install (set_list M ?D)))
                 (status ''Installed all required system dependencies.'' ''96'')) w1))
        = [pacman_install (set_list M ?D)]"
      by (simp add: run_status_commands)
    with False show ?thesis by (simp add: Let_def pacman_install_def)
  qed
  have e: "install_package_deps M w
      = andthen (status ''Checking packages...'' ''96'') (bind (run M pacman_query) ?f) w"
    by (simp add: install_package_deps_def pacman_query_def)
  have c: "commands (trace_of (bind (run M pacman_query) ?f w))
      = [pacman_query] @ commands (trace_of (?f out w1))"
    by (subst bind_commands[where m="run M pacman_query" and w=w, OF q]) simp
  show ?thesis
    unfolding e status_then_commands c f by simp
qed

lemma install_commands_failed:
  assumes "subprocess_run M pacman_query w = (out, w1)"
    and "out = None \<or> returncode (the out) \<noteq> 0"
  shows "commands (trace_of (install_package_deps M w)) = [pacman_query]"
proof -
  from assms obtain e t where q: "run M pacman_query w = (Inl e, w1, t)"
    "commands t = [pacman_query]"
    by (cases out) (auto simp: run_eq)
  have "commands (trace_of (install_package_deps M w))
      = commands (trace_of (bind (run M pacman_query) (\<lambda>out.
          let packages = set (str_split (CHR 0x0A) (stdout out));
              to_install = SYSTEM_DEPENDENCIES - packages
          in if to_install \<noteq> {}
             then andthen (status ''Installing required dependencies...'' ''96'')
                   (andthen
                     (run M \<lparr>cmd_args = [''pacman'', ''-S'', ''--noconfirm'', ''--needed'']
                                          @ set_list M to_install,
                             cmd_cwd = None, cmd_env = None, cmd_pipe = False\<rparr>)
                     (status ''Installed all required system dependencies.'' ''96''))
             else status ''All system dependencies have already been installed.'' ''96'') w))"
    by (simp add: install_package_deps_def pacman_query_def)
  also have "\<dots> = commands t" by (rule bind_commands_failed[where m="run M pacman_query" and w=w, OF q(1)])
  finally show ?thesis using q(2) by simp
qed



lemma quiet_query [simp]: "set (str_split (CHR 0x0A) []) = {[]}"
  by simp


text \<open>
  C10. An install command of the package installer names a set of packages that is not
  empty and lies within the required set; the empty string, which splitting the output
  of the query at newlines produces, is not among them.
\<close>

theorem install_nonempty_subset:
  assumes "\<forall>S. finite S \<longrightarrow> set (set_list M S) = S"
    and "c \<in> set (commands (trace_of (install_package_deps M w)))"
    and "take 2 (cmd_args c) = [''pacman'', ''-S'']"
  shows "\<exists>ps. cmd_args c = [''pacman'', ''-S'', ''--noconfirm'', ''--needed''] @ ps
           \<and> set ps \<noteq> {} \<and> set ps \<subseteq> SYSTEM_DEPENDENCIES \<and> [] \<notin> set ps"
proof -
  obtain out w1 where q: "subprocess_run M pacman_query w = (out, w1)"
    by (cases "subprocess_run M pacman_query w") auto
  have nq: "c \<noteq> pacman_query"
    using assms(3) by (auto simp: pacman_query_def)
  show ?thesis
  proof (cases "out = None \<or> returncode (the out) \<noteq> 0")
    case True
    from install_commands_failed[OF q True] assms(2) nq show ?thesis by simp
  next
    case False
    then obtain o1 where o1: "out = Some o1" "returncode o1 = 0" by auto
    let ?D = "SYSTEM_DEPENDENCIES - set (str_split (CHR 0x0A) (stdout o1))"
    from install_commands[OF q[unfolded o1(1)] o1(2)] assms(2) nq
    have c: "c = pacman_install (set_list M ?D)" and ne: "?D \<noteq> {}"
      by (auto split: if_splits)
    from assms(1) have s: "set (set_list M ?D) = ?D" by simp
    have "cmd_args c = [''pacman'', ''-S'', ''--noconfirm'', ''--needed''] @ set_list M ?D"
      by (simp add: c pacman_install_def)
    moreover from s ne have "set (set_list M ?D) \<noteq> {}" by simp
    moreover from s have "set (set_list M ?D) \<subseteq> SYSTEM_DEPENDENCIES" by auto
    moreover from s empty_not_dependency have "[] \<notin> set (set_list M ?D)" by auto
    ultimately show ?thesis by blast
  qed
qed

theorem install_nonempty_subset_witness:
  "pacman_install (sorted_list_of_set (SYSTEM_DEPENDENCIES - {[]}))
     \<in> set (commands (trace_of (install_package_deps (machine msys_env True 0 []) ())))
   \<and> take 2 (cmd_args (pacman_install (sorted_list_of_set (SYSTEM_DEPENDENCIES - {[]}))))
       = [''pacman'', ''-S'']
   \<and> (\<exists>ps. cmd_args (pacman_install (sorted_list_of_set (SYSTEM_DEPENDENCIES - {[]})))
            = [''pacman'', ''-S'', ''--noconfirm'', ''--needed''] @ ps
          \<and> set ps \<noteq> {} \<and> set ps \<subseteq> SYSTEM_DEPENDENCIES \<and> [] \<notin> set ps)"
proof -
  let ?M = "machine msys_env True 0 []"
  let ?c = "pacman_install (sorted_list_of_set (SYSTEM_DEPENDENCIES - {[]}))"
  have order: "\<forall>S. finite S \<longrightarrow> set (set_list ?M S) = S" by simp
  have ne: "SYSTEM_DEPENDENCIES - {[]} \<noteq> {}"
    using patch_is_dependency by auto
  have "commands (trace_of (install_package_deps ?M ()))
      = [pacman_query, ?c]"
    using install_commands[of ?M "()" "\<lparr>returncode = 0, stdout = []\<rparr>" "()"] ne
    by simp
  then have mem: "?c \<in> set (commands (trace_of (install_package_deps ?M ())))" by simp
  have tk: "take 2 (cmd_args ?c) = [''pacman'', ''-S'']" by (simp add: pacman_install_def)
  from install_nonempty_subset[OF order mem tk] mem tk show ?thesis by blast
qed

subsection \<open>What a run executes\<close>

lemma andthen_commands:
  "commands (trace_of (andthen m k w))
     = commands (trace_of (m w))
       @ (case result_of (m w) of Inl _ \<Rightarrow> []
          | Inr _ \<Rightarrow> commands (trace_of (k (state_of (m w)))))"
  by (simp add: andthen_def bind_def split: prod.splits sum.splits)

lemma andthen_result:
  "result_of (andthen m k w) = Inr b \<Longrightarrow>
   (\<exists>a. result_of (m w) = Inr a) \<and> result_of (k (state_of (m w))) = Inr b"
  by (simp add: andthen_def bind_def split: prod.splits sum.splits)

lemma andthen_state:
  "result_of (m w) = Inr a \<Longrightarrow> state_of (andthen m k w) = state_of (k (state_of (m w)))"
  by (cases "m w") (auto simp: andthen_def bind_def split: prod.splits)

lemma onlyD: "only P m \<Longrightarrow> c \<in> set (commands (trace_of (m w))) \<Longrightarrow> P c"
  by (simp add: only_def)

lemma only_ret [simp]: "only P (ret a)"
  by (simp add: only_def ret_eq)

lemma only_raise [simp]: "only P (raise e)"
  by (simp add: only_def raise_eq)

lemma only_status [simp]: "only P (status m c)"
  by (simp add: only_def status_eq)

lemma only_run: "P c \<Longrightarrow> only P (run M c)"
  by (simp add: only_def)

lemma only_bind:
  assumes "only P m" and "\<And>a. only P (f a)"
  shows "only P (bind m f)"
  unfolding only_def
proof (intro allI ballI)
  fix w c
  assume c: "c \<in> set (commands (trace_of (bind m f w)))"
  show "P c"
  proof (cases rule: bind_cases[of m w f])
    case (fails e w1 t1)
    with c have "c \<in> set (commands (trace_of (m w)))" by simp
    with assms(1) show ?thesis by (rule onlyD)
  next
    case (goes a w1 t1 r w2 t2)
    with c have "c \<in> set (commands (trace_of (m w))) \<or> c \<in> set (commands (trace_of (f a w1)))"
      by auto
    with assms show ?thesis by (auto dest: onlyD)
  qed
qed

lemma only_andthen: "only P m \<Longrightarrow> only P k \<Longrightarrow> only P (andthen m k)"
  by (simp add: andthen_def only_bind)

lemma only_cond: "only P m \<Longrightarrow> only P k \<Longrightarrow> only P (\<lambda>w. if b w then m w else k w)"
  by (simp add: only_def)

lemma only_run_all: "\<forall>c \<in> set cs. P c \<Longrightarrow> only P (run_all M cs)"
  by (induction cs) (simp_all add: only_andthen only_run)

lemma only_check_shell [simp]: "only P (check_shell M)"
  by (simp add: check_shell_def)

lemma only_install: "only fetch_or_install (install_package_deps M)"
  unfolding install_package_deps_def Let_def
  by (intro only_andthen only_bind only_run)
     (simp_all add: only_andthen only_run fetch_or_install_def)

lemma only_clone: "only fetch_or_install (clone M url d)"
  unfolding clone_def
  by (intro only_cond only_andthen only_run) (simp_all add: fetch_or_install_def)

lemma only_patch: "only fetch_or_install (patch M p)"
  unfolding patch_def
  by (intro only_andthen only_run) (simp_all add: fetch_or_install_def)

lemma only_when_cloned: "only P c \<Longrightarrow> only P b \<Longrightarrow> only P (when_cloned c b)"
  unfolding when_cloned_def by (rule only_bind) simp_all

lemma only_fetch: "only fetch_or_install (fetch_libraries M)"
  unfolding fetch_libraries_def
  by (intro only_andthen only_when_cloned only_clone only_patch) simp_all

lemma check_shell_commands [simp]: "commands (trace_of (check_shell M w)) = []"
  by (simp add: check_shell_def ret_eq raise_eq)

subsection \<open>The builds\<close>

lemma build_libraries_run_all:
  "build_libraries M
     = andthen (status ''Building libraries...'' ''96'')
        (andthen (run_all M (first_libraries M))
          (andthen (meson M [ListArg [''-Dcxx=true'']] ''deps/lv2kit'')
            (run_all M [waf_command M [''--disable-tests''] ''deps/aubio'' ''../ardour/waf''
               Map.empty True False])))"
proof -
  have "run_all M (first_libraries M)
      = andthen (waf M [] ''deps/jack2'' ''waf'' Map.empty True True)
         (andthen (ac M ''deps/liblo'')
         (andthen (ac M ''deps/libltc'')
         (andthen (ac M ''deps/raptor'') (ac M ''deps/LRDF''))))"
    by (simp add: first_libraries_def waf_eq ac_run_all andthen_assoc andthen_ret_left
        extra_options_def)
  then show ?thesis
    by (simp add: build_libraries_def andthen_assoc waf_eq extra_options_def)
qed


lemma run_all_ok:
  "result_of (run_all M cs w) = Inr () \<Longrightarrow> commands (trace_of (run_all M cs w)) = cs"
proof -
  assume ok: "result_of (run_all M cs w) = Inr ()"
  obtain r w' t where e: "run_all M cs w = (r, w', t)" by (cases "run_all M cs w") auto
  from run_all_result[OF e] ok e show ?thesis by simp
qed

lemma meson_ok:
  "result_of (meson M args cwd w) = Inr () \<Longrightarrow>
   commands (trace_of (meson M args cwd w)) = meson_plan M args cwd w"
  by (simp add: meson_run_all run_all_ok)

subsection \<open>Properties of the machine that no command destroys\<close>

lemma keepsD: "keeps I m \<Longrightarrow> I w \<Longrightarrow> I (state_of (m w))"
  by (simp add: keeps_def)

lemma keeps_ret [simp]: "keeps I (ret a)"
  by (simp add: keeps_def ret_eq)

lemma keeps_raise [simp]: "keeps I (raise e)"
  by (simp add: keeps_def raise_eq)

lemma keeps_status [simp]: "keeps I (status m c)"
  by (simp add: keeps_def status_eq)

lemma keeps_run: "stable M I \<Longrightarrow> keeps I (run M c)"
  unfolding keeps_def stable_def
proof (intro allI impI)
  fix w
  assume st: "\<forall>c w. I w \<longrightarrow> I (snd (subprocess_run M c w))" and w: "I w"
  then have "I (snd (subprocess_run M c w))" by blast
  moreover have "state_of (run M c w) = snd (subprocess_run M c w)"
    by (simp add: run_eq split: prod.splits option.splits)
  ultimately show "I (state_of (run M c w))" by simp
qed

lemma keeps_bind:
  assumes "keeps I m" and "\<And>a. keeps I (f a)"
  shows "keeps I (bind m f)"
  unfolding keeps_def
proof (intro allI impI)
  fix w
  assume w: "I w"
  show "I (state_of (bind m f w))"
  proof (cases rule: bind_cases[of m w f])
    case (fails e w1 t1)
    with keepsD[OF assms(1) w] show ?thesis by simp
  next
    case (goes a w1 t1 r w2 t2)
    with keepsD[OF assms(1) w] have "I w1" by simp
    from keepsD[OF assms(2)[of a] this] goes show ?thesis by simp
  qed
qed

lemma keeps_andthen: "keeps I m \<Longrightarrow> keeps I k \<Longrightarrow> keeps I (andthen m k)"
  by (simp add: andthen_def keeps_bind)

lemma keeps_run_all: "stable M I \<Longrightarrow> keeps I (run_all M cs)"
  by (induction cs) (simp_all add: keeps_andthen keeps_run)

lemma keeps_install: "stable M I \<Longrightarrow> keeps I (install_package_deps M)"
  unfolding install_package_deps_def Let_def
  by (intro keeps_andthen keeps_bind keeps_run)
     (simp_all add: keeps_andthen keeps_run)

subsection \<open>The commands of a run that succeeds\<close>

lemma build_libraries_commands:
  assumes "result_of (build_libraries M w) = Inr ()"
  shows "\<exists>w1. (\<forall>I. stable M I \<longrightarrow> I w \<longrightarrow> I w1)
           \<and> commands (trace_of (build_libraries M w))
               = library_commands M
                   (if isdir M w1 (''deps/lv2kit'' @ sep M @ ''build'') then []
                    else [meson_command [''setup'', ''build''] ''deps/lv2kit''])"
proof -
  let ?A = "run_all M (first_libraries M)"
  let ?B = "meson M [ListArg [''-Dcxx=true'']] ''deps/lv2kit''"
  let ?C = "run_all M [waf_command M [''--disable-tests''] ''deps/aubio'' ''../ardour/waf''
               Map.empty True False]"
  let ?w1 = "state_of (?A w)"
  let ?w2 = "state_of (?B ?w1)"
  from assms have r0: "result_of (andthen ?A (andthen ?B ?C) w) = Inr ()"
    unfolding build_libraries_run_all
    by (simp add: andthen_def[of "status _ _"] bind_def status_eq split: prod.splits)
  from andthen_result[OF r0] have rA: "result_of (?A w) = Inr ()"
    and r1: "result_of (andthen ?B ?C ?w1) = Inr ()" by auto
  from andthen_result[OF r1] have rB: "result_of (?B ?w1) = Inr ()"
    and rC: "result_of (?C ?w2) = Inr ()" by auto
  have "commands (trace_of (build_libraries M w))
      = commands (trace_of (andthen ?A (andthen ?B ?C) w))"
    unfolding build_libraries_run_all by simp
  also have "\<dots> = commands (trace_of (?A w)) @ commands (trace_of (?B ?w1))
        @ commands (trace_of (?C ?w2))"
    using rA rB by (simp add: andthen_commands)
  also have "\<dots> = first_libraries M @ meson_plan M [ListArg [''-Dcxx=true'']] ''deps/lv2kit'' ?w1
        @ [waf_command M [''--disable-tests''] ''deps/aubio'' ''../ardour/waf''
               Map.empty True False]"
    using run_all_ok[OF rA] meson_ok[OF rB] run_all_ok[OF rC] by simp
  also have "\<dots> = library_commands M
                   (if isdir M ?w1 (''deps/lv2kit'' @ sep M @ ''build'') then []
                    else [meson_command [''setup'', ''build''] ''deps/lv2kit''])"
    by (simp add: library_commands_def meson_plan_def extra_options_def)
  finally have c: "commands (trace_of (build_libraries M w))
      = library_commands M
                   (if isdir M ?w1 (''deps/lv2kit'' @ sep M @ ''build'') then []
                    else [meson_command [''setup'', ''build''] ''deps/lv2kit''])" .
  have "\<forall>I. stable M I \<longrightarrow> I w \<longrightarrow> I ?w1"
    by (auto dest: keepsD[OF keeps_run_all])
  with c show ?thesis by blast
qed

lemma build_ardour_set:
  "environ M ''PKG_CONFIG_PATH'' = Some p \<Longrightarrow>
   commands (trace_of (build_ardour M w)) = [ardour_command M p]"
  by (simp add: build_ardour_def waf_commands ardour_command_def pkg_config_path_def
      extra_options_def)

lemma build_ardour_commands:
  assumes "result_of (build_ardour M w) = Inr ()"
  shows "\<exists>p. environ M ''PKG_CONFIG_PATH'' = Some p
           \<and> commands (trace_of (build_ardour M w)) = [ardour_command M p]"
proof (cases "environ M ''PKG_CONFIG_PATH''")
  case None
  from build_ardour_unset[OF this, of w] assms show ?thesis by simp
next
  case (Some p)
  with build_ardour_set[OF Some, of w] show ?thesis by simp
qed

lemma main_commands:
  assumes "result_of (main M w) = Inr ()"
  shows "\<exists>w1 p. commands (trace_of (main M w))
             = commands (trace_of (install_package_deps M w))
               @ commands (trace_of (fetch_libraries M (state_of (install_package_deps M w))))
               @ library_commands M
                   (if isdir M w1 (''deps/lv2kit'' @ sep M @ ''build'') then []
                    else [meson_command [''setup'', ''build''] ''deps/lv2kit''])
               @ [ardour_command M p]
           \<and> environ M ''PKG_CONFIG_PATH'' = Some p
           \<and> (\<forall>I. stable M I \<longrightarrow>
                 I (state_of (fetch_libraries M (state_of (install_package_deps M w))))
                 \<longrightarrow> I w1)"
proof -
  let ?rest1 = "andthen (install_package_deps M)
      (andthen (fetch_libraries M) (andthen (build_libraries M) (build_ardour M)))"
  let ?rest2 = "andthen (fetch_libraries M) (andthen (build_libraries M) (build_ardour M))"
  let ?rest3 = "andthen (build_libraries M) (build_ardour M)"
  let ?w0 = "state_of (check_shell M w)"
  let ?w1 = "state_of (install_package_deps M w)"
  let ?w2 = "state_of (fetch_libraries M ?w1)"
  let ?w3 = "state_of (build_libraries M ?w2)"
  from assms have m: "result_of (andthen (check_shell M) ?rest1 w) = Inr ()"
    by (simp add: main_def)
  from andthen_result[OF m] have r0: "result_of (check_shell M w) = Inr ()"
    and m1': "result_of (?rest1 ?w0) = Inr ()" by auto
  have w0: "?w0 = w" by (simp add: check_shell_def ret_eq raise_eq)
  from m1' w0 have m1: "result_of (?rest1 w) = Inr ()" by simp
  from andthen_result[OF m1] have r1: "result_of (install_package_deps M w) = Inr ()"
    and m2: "result_of (?rest2 ?w1) = Inr ()" by auto
  from andthen_result[OF m2] have r2: "result_of (fetch_libraries M ?w1) = Inr ()"
    and m3: "result_of (?rest3 ?w2) = Inr ()" by auto
  from andthen_result[OF m3] have r3: "result_of (build_libraries M ?w2) = Inr ()"
    and r4: "result_of (build_ardour M ?w3) = Inr ()" by auto
  from build_libraries_commands[OF r3] obtain w1 where
    st: "\<forall>I. stable M I \<longrightarrow> I ?w2 \<longrightarrow> I w1"
    and bl: "commands (trace_of (build_libraries M ?w2))
        = library_commands M
            (if isdir M w1 (''deps/lv2kit'' @ sep M @ ''build'') then []
             else [meson_command [''setup'', ''build''] ''deps/lv2kit''])"
    by blast
  from build_ardour_commands[OF r4] obtain p where
    p: "environ M ''PKG_CONFIG_PATH'' = Some p"
    and ba: "commands (trace_of (build_ardour M ?w3)) = [ardour_command M p]"
    by blast
  have "commands (trace_of (main M w))
      = commands (trace_of (install_package_deps M w))
        @ commands (trace_of (fetch_libraries M ?w1))
        @ commands (trace_of (build_libraries M ?w2))
        @ commands (trace_of (build_ardour M ?w3))"
    unfolding main_def
    using r0 r1 r2 r3 w0 by (simp add: andthen_commands)
  with bl ba p st show ?thesis by auto
qed

subsection \<open>Lines of text\<close>

lemma str_split_line:
  "c \<notin> set x \<Longrightarrow> str_split c (x @ c # rest) = x # str_split c rest"
  by (induction x) (auto simp: Let_def)

lemma str_split_lines:
  "\<forall>x \<in> set xs. c \<notin> set x \<Longrightarrow>
   str_split c (concat (map (\<lambda>p. p @ [c]) xs)) = xs @ [[]]"
  by (induction xs) (simp_all add: str_split_line)

lemma no_newline_in_packages: "\<forall>p \<in> set dependency_list. CHR 0x0A \<notin> set p"
  by (simp add: dependency_list_def mingw_packages_def msys_packages_def)

lemma required_installed:
  "SYSTEM_DEPENDENCIES - set (str_split (CHR 0x0A) installed_text) = {}"
  unfolding installed_text_def str_split_lines[OF no_newline_in_packages]
  by (auto simp: SYSTEM_DEPENDENCIES_def)

text \<open>
  C6. In a run that succeeds, the commands executed are: first the package and fetch
  commands (pacman, git, patch), then the builds of jack2, liblo, libltc, raptor, LRDF,
  lv2kit and aubio in this order (the setup step of meson present or not), and last the
  build of the application.
\<close>

theorem build_order:
  "result_of (main M w) = Inr () \<longrightarrow>
     (\<exists>pre first p.
        commands (trace_of (main M w))
          = pre @ library_commands M first @ [ardour_command M p]
      \<and> (\<forall>c \<in> set pre. fetch_or_install c)
      \<and> (\<forall>c \<in> set (library_commands M first @ [ardour_command M p]). \<not> fetch_or_install c)
      \<and> (first = [] \<or> first = [meson_command [''setup'', ''build''] ''deps/lv2kit''])
      \<and> environ M ''PKG_CONFIG_PATH'' = Some p
      \<and> remdups_adj (map cmd_cwd (library_commands M first @ [ardour_command M p]))
          = map Some
             ([''deps/jack2'', ''deps/liblo'', ''deps/libltc'', ''deps/raptor'', ''deps/LRDF'']
              @ map (\<lambda>c. ''deps/lv2kit'') first
              @ [''deps/lv2kit'' @ sep M @ ''build'', ''deps/aubio'', ''deps/ardour'']))"
proof
  assume ok: "result_of (main M w) = Inr ()"
  let ?pre = "commands (trace_of (install_package_deps M w))
      @ commands (trace_of (fetch_libraries M (state_of (install_package_deps M w))))"
  from main_commands[OF ok] obtain w1 p where
    c: "commands (trace_of (main M w))
        = ?pre @ library_commands M
              (if isdir M w1 (''deps/lv2kit'' @ sep M @ ''build'') then []
               else [meson_command [''setup'', ''build''] ''deps/lv2kit''])
          @ [ardour_command M p]"
    and p: "environ M ''PKG_CONFIG_PATH'' = Some p"
    by auto
  let ?first = "if isdir M w1 (''deps/lv2kit'' @ sep M @ ''build'') then []
               else [meson_command [''setup'', ''build''] ''deps/lv2kit'']"
  have pre: "\<forall>c \<in> set ?pre. fetch_or_install c"
    using onlyD[OF only_install] onlyD[OF only_fetch] by auto
  have f: "?first = [] \<or> ?first = [meson_command [''setup'', ''build''] ''deps/lv2kit'']"
    by simp
  have builds: "\<forall>c \<in> set (library_commands M ?first @ [ardour_command M p]).
      \<not> fetch_or_install c"
    by (simp add: library_commands_def first_libraries_def meson_steps_def
        ardour_command_def waf_command_def autogen_command_def make_install_def
        meson_command_def fetch_or_install_def)
  have dirs: "remdups_adj (map cmd_cwd (library_commands M ?first @ [ardour_command M p]))
      = map Some
         ([''deps/jack2'', ''deps/liblo'', ''deps/libltc'', ''deps/raptor'', ''deps/LRDF'']
          @ map (\<lambda>c. ''deps/lv2kit'') ?first
          @ [''deps/lv2kit'' @ sep M @ ''build'', ''deps/aubio'', ''deps/ardour''])"
    by (simp add: library_commands_def first_libraries_def meson_steps_def
        ardour_command_def waf_command_def autogen_command_def make_install_def
        meson_command_def)
  from c pre builds f p dirs show "\<exists>pre first p.
        commands (trace_of (main M w))
          = pre @ library_commands M first @ [ardour_command M p]
      \<and> (\<forall>c \<in> set pre. fetch_or_install c)
      \<and> (\<forall>c \<in> set (library_commands M first @ [ardour_command M p]). \<not> fetch_or_install c)
      \<and> (first = [] \<or> first = [meson_command [''setup'', ''build''] ''deps/lv2kit''])
      \<and> environ M ''PKG_CONFIG_PATH'' = Some p
      \<and> remdups_adj (map cmd_cwd (library_commands M first @ [ardour_command M p]))
          = map Some
             ([''deps/jack2'', ''deps/liblo'', ''deps/libltc'', ''deps/raptor'', ''deps/LRDF'']
              @ map (\<lambda>c. ''deps/lv2kit'') first
              @ [''deps/lv2kit'' @ sep M @ ''build'', ''deps/aubio'', ''deps/ardour''])"
    by blast
qed

theorem build_order_witness:
  "result_of (main (machine msys_env False 0 installed_text) ()) = Inr ()
   \<and> (\<exists>pre first p.
        commands (trace_of (main (machine msys_env False 0 installed_text) ()))
          = pre @ library_commands (machine msys_env False 0 installed_text) first
              @ [ardour_command (machine msys_env False 0 installed_text) p]
      \<and> (first = [] \<or> first = [meson_command [''setup'', ''build''] ''deps/lv2kit'']))"
proof -
  let ?M = "machine msys_env False 0 installed_text"
  have ok: "result_of (main ?M ()) = Inr ()"
    by (rule succeeds_unit, rule succeeds_main[where p="''/mingw64/lib/pkgconfig''"]) simp_all
  from build_order[of ?M "()", rule_format, OF ok] ok show ?thesis by blast
qed

subsection \<open>A second run\<close>

lemma andthen_commands_subset:
  "set (commands (trace_of (andthen m k w)))
     \<subseteq> set (commands (trace_of (m w))) \<union> set (commands (trace_of (k (state_of (m w)))))"
  by (auto simp: andthen_commands split: sum.splits)

lemma install_quiet:
  assumes "all_installed M w"
  shows "commands (trace_of (install_package_deps M w)) = [pacman_query]"
proof -
  obtain out w1 where q: "subprocess_run M pacman_query w = (out, w1)"
    by (cases "subprocess_run M pacman_query w") auto
  show ?thesis
  proof (cases "out = None \<or> returncode (the out) \<noteq> 0")
    case True
    from install_commands_failed[OF q True] show ?thesis .
  next
    case False
    then obtain o1 where o1: "out = Some o1" "returncode o1 = 0" by auto
    from assms q o1 have "SYSTEM_DEPENDENCIES \<subseteq> set (str_split (CHR 0x0A) (stdout o1))"
      by (simp add: all_installed_def)
    then have "SYSTEM_DEPENDENCIES - set (str_split (CHR 0x0A) (stdout o1)) = {}" by auto
    with install_commands[OF q[unfolded o1(1)] o1(2)] show ?thesis by simp
  qed
qed

lemma fetch_all_present:
  "\<forall>url \<in> set (map fst ds). isdir M w (checkout M url) \<Longrightarrow>
   fetch_all M ds w = (Inr (), w, [])"
proof (induction ds)
  case Nil
  then show ?case by (simp add: ret_eq)
next
  case (Cons d ds)
  obtain url ps where d: "d = (url, ps)" by (cases d)
  from Cons.prems d have "fetch_one M url ps w = (Inr (), w, [])"
    by (simp add: fetch_one_present)
  moreover from Cons have "fetch_all M ds w = (Inr (), w, [])" by simp
  ultimately show ?case by (simp add: d andthen_def bind_def)
qed

lemma fetch_present:
  assumes "all_present M w"
  shows "fetch_libraries M w
       = (Inr (), w, [Printed (status_text ''Fetching libraries...'' ''96'')])"
proof -
  from assms have "fetch_all M fetch_list w = (Inr (), w, [])"
    by (intro fetch_all_present) (simp add: all_present_def)
  then show ?thesis
    by (simp add: fetch_libraries_table status_then)
qed

lemma clone_patch_or_install_fetch: "clone_patch_or_install c \<Longrightarrow> fetch_or_install c"
  unfolding clone_patch_or_install_def fetch_or_install_def
  by (cases "cmd_args c") auto


lemma only_mono: "only P m \<Longrightarrow> (\<And>c. P c \<Longrightarrow> Q c) \<Longrightarrow> only Q m"
  by (auto simp: only_def)

lemma only_waf: "only (\<lambda>c. \<not> fetch_or_install c) (waf M args cwd ws env c cxx)"
  unfolding waf_eq
  by (intro only_andthen only_run) (simp_all add: waf_command_def fetch_or_install_def)

lemma only_ac: "only (\<lambda>c. \<not> fetch_or_install c) (ac M cwd)"
  unfolding ac_def
  by (intro only_andthen only_run) (simp_all add: fetch_or_install_def)

lemma only_meson: "only (\<lambda>c. \<not> fetch_or_install c) (meson M args cwd)"
  unfolding meson_def Let_def
  by (intro only_andthen only_cond only_run) (simp_all add: fetch_or_install_def)

lemma only_build_libraries: "only (\<lambda>c. \<not> fetch_or_install c) (build_libraries M)"
  unfolding build_libraries_def
  by (intro only_andthen only_waf only_ac only_meson) simp_all

lemma only_build_ardour: "only (\<lambda>c. \<not> fetch_or_install c) (build_ardour M)"
  unfolding build_ardour_def
  by (cases "environ M ''PKG_CONFIG_PATH''") (simp_all add: only_andthen only_waf)

lemma only_builds:
  "only (\<lambda>c. \<not> clone_patch_or_install c) (andthen (build_libraries M) (build_ardour M))"
  by (rule only_mono[OF only_andthen[OF only_build_libraries only_build_ardour]])
     (auto dest: clone_patch_or_install_fetch)

lemma pacman_query_quiet: "\<not> clone_patch_or_install pacman_query"
  by (simp add: clone_patch_or_install_def pacman_query_def)

lemma second_run_quiet:
  assumes P: "all_present M w" and S: "stable M (all_present M)" and Q: "all_installed M w"
  shows "\<forall>c \<in> set (commands (trace_of (main M w))). \<not> clone_patch_or_install c"
proof
  fix c
  assume c: "c \<in> set (commands (trace_of (main M w)))"
  let ?rest3 = "andthen (build_libraries M) (build_ardour M)"
  let ?rest2 = "andthen (fetch_libraries M) ?rest3"
  let ?rest1 = "andthen (install_package_deps M) ?rest2"
  let ?w1 = "state_of (install_package_deps M w)"
  have w0: "state_of (check_shell M w) = w" by (simp add: check_shell_def ret_eq raise_eq)
  from keepsD[OF keeps_install[OF S] P] have P1: "all_present M ?w1" .
  from fetch_present[OF P1] have f: "commands (trace_of (fetch_libraries M ?w1)) = []"
    "state_of (fetch_libraries M ?w1) = ?w1" by simp_all
  from c have "c \<in> set (commands (trace_of (?rest1 w)))"
    using andthen_commands_subset[of "check_shell M" ?rest1 w] w0
    by (auto simp: main_def)
  then have "c \<in> set (commands (trace_of (install_package_deps M w)))
      \<or> c \<in> set (commands (trace_of (?rest2 ?w1)))"
    using andthen_commands_subset[of "install_package_deps M" ?rest2 w] by auto
  then have "c = pacman_query \<or> c \<in> set (commands (trace_of (?rest2 ?w1)))"
    by (simp add: install_quiet[OF Q])
  then have "c = pacman_query \<or> c \<in> set (commands (trace_of (?rest3 ?w1)))"
    using andthen_commands_subset[of "fetch_libraries M" ?rest3 ?w1] f by auto
  then show "\<not> clone_patch_or_install c"
    using pacman_query_quiet onlyD[OF only_builds, of c M ?w1] by auto
qed

lemma second_run_commands:
  assumes P: "all_present M w" and S: "stable M (all_present M)" and Q: "all_installed M w"
    and ok: "result_of (main M w) = Inr ()"
  shows "\<exists>p. environ M ''PKG_CONFIG_PATH'' = Some p
           \<and> commands (trace_of (main M w))
               = pacman_query # library_commands M [] @ [ardour_command M p]"
proof -
  let ?w1 = "state_of (install_package_deps M w)"
  from keepsD[OF keeps_install[OF S] P] have P1: "all_present M ?w1" .
  from fetch_present[OF P1] have f: "commands (trace_of (fetch_libraries M ?w1)) = []"
    "state_of (fetch_libraries M ?w1) = ?w1" by simp_all
  from main_commands[OF ok] obtain w2 where "\<exists>p. commands (trace_of (main M w))
        = commands (trace_of (install_package_deps M w))
          @ commands (trace_of (fetch_libraries M ?w1))
          @ library_commands M
              (if isdir M w2 (''deps/lv2kit'' @ sep M @ ''build'') then []
               else [meson_command [''setup'', ''build''] ''deps/lv2kit''])
          @ [ardour_command M p]
      \<and> environ M ''PKG_CONFIG_PATH'' = Some p
      \<and> (\<forall>I. stable M I \<longrightarrow> I (state_of (fetch_libraries M ?w1)) \<longrightarrow> I w2)" ..
  then obtain p where x: "commands (trace_of (main M w))
        = commands (trace_of (install_package_deps M w))
          @ commands (trace_of (fetch_libraries M ?w1))
          @ library_commands M
              (if isdir M w2 (''deps/lv2kit'' @ sep M @ ''build'') then []
               else [meson_command [''setup'', ''build''] ''deps/lv2kit''])
          @ [ardour_command M p]
      \<and> environ M ''PKG_CONFIG_PATH'' = Some p
      \<and> (\<forall>I. stable M I \<longrightarrow> I (state_of (fetch_libraries M ?w1)) \<longrightarrow> I w2)" ..
  note c = x[THEN conjunct1] and p = x[THEN conjunct2, THEN conjunct1]
    and st = x[THEN conjunct2, THEN conjunct2]
  from st[rule_format, OF S] P1 f(2) have "all_present M w2" by simp
  then have d: "isdir M w2 (''deps/lv2kit'' @ sep M @ ''build'')"
    by (simp add: all_present_def)
  have "commands (trace_of (main M w))
      = pacman_query # library_commands M [] @ [ardour_command M p]"
    unfolding c f(1) install_quiet[OF Q] using d by simp
  with p show ?thesis by blast
qed

lemma second_machine:
  "all_present (machine e True code out) ()"
  "stable (machine e True code out) (all_present (machine e True code out))"
  "all_installed (machine e present code installed_text) ()"
  using required_installed
  by (auto simp: all_present_def stable_def all_installed_def)

text \<open>
  C1, as amended. In a run that starts with every checked directory present and every
  required package installed, and in which no command removes these directories, no
  clone, no patch and no package installation is executed. When the run succeeds, its
  commands are the query of the installed packages, the builds of the libraries without
  the setup step of meson (the one build step that a directory check guards: its build
  directory exists), and the build of the application. The run succeeds when every
  command exits with status 0 and the two environment variables are set.
\<close>

theorem second_run:
  assumes "all_present M w" and "stable M (all_present M)" and "all_installed M w"
  shows "(\<forall>c \<in> set (commands (trace_of (main M w))). \<not> clone_patch_or_install c)
       \<and> (result_of (main M w) = Inr () \<longrightarrow>
            (\<exists>p. environ M ''PKG_CONFIG_PATH'' = Some p
               \<and> commands (trace_of (main M w))
                   = pacman_query # library_commands M [] @ [ardour_command M p]))
       \<and> (always_ok M \<and> environ M ''MSYSTEM'' = Some ''MINGW64''
            \<and> environ M ''PKG_CONFIG_PATH'' \<noteq> None \<longrightarrow> result_of (main M w) = Inr ())"
proof (intro conjI impI)
  show "\<forall>c \<in> set (commands (trace_of (main M w))). \<not> clone_patch_or_install c"
    by (rule second_run_quiet[OF assms])
next
  assume "result_of (main M w) = Inr ()"
  then show "\<exists>p. environ M ''PKG_CONFIG_PATH'' = Some p
      \<and> commands (trace_of (main M w))
          = pacman_query # library_commands M [] @ [ardour_command M p]"
    by (rule second_run_commands[OF assms])
next
  assume a: "always_ok M \<and> environ M ''MSYSTEM'' = Some ''MINGW64''
      \<and> environ M ''PKG_CONFIG_PATH'' \<noteq> None"
  then obtain p where "environ M ''PKG_CONFIG_PATH'' = Some p" by auto
  with a show "result_of (main M w) = Inr ()"
    by (intro succeeds_unit succeeds_main[where p=p]) auto
qed

theorem second_run_witness:
  "all_present (machine msys_env True 0 installed_text) ()
   \<and> stable (machine msys_env True 0 installed_text)
       (all_present (machine msys_env True 0 installed_text))
   \<and> all_installed (machine msys_env True 0 installed_text) ()
   \<and> result_of (main (machine msys_env True 0 installed_text) ()) = Inr ()
   \<and> commands (trace_of (main (machine msys_env True 0 installed_text) ()))
       = pacman_query # library_commands (machine msys_env True 0 installed_text) []
           @ [ardour_command (machine msys_env True 0 installed_text)
                ''/mingw64/lib/pkgconfig'']"
proof -
  let ?M = "machine msys_env True 0 installed_text"
  have h: "all_present ?M ()" "stable ?M (all_present ?M)" "all_installed ?M ()"
    by (rule second_machine)+
  from second_run[OF h] h show ?thesis by simp
qed

theorem second_run_skips_step_counterexample:
  "all_present (machine msys_env True 0 installed_text) ()
   \<and> all_installed (machine msys_env True 0 installed_text) ()
   \<and> result_of (main (machine msys_env False 0 installed_text) ()) = Inr ()
   \<and> result_of (main (machine msys_env True 0 installed_text) ()) = Inr ()
   \<and> meson_command [''setup'', ''build''] ''deps/lv2kit''
       \<in> set (commands (trace_of (main (machine msys_env False 0 installed_text) ())))
   \<and> meson_command [''setup'', ''build''] ''deps/lv2kit''
       \<notin> set (commands (trace_of (main (machine msys_env True 0 installed_text) ())))"
proof -
  let ?M1 = "machine msys_env False 0 installed_text"
  let ?M2 = "machine msys_env True 0 installed_text"
  let ?su = "meson_command [''setup'', ''build''] ''deps/lv2kit''"
  have ok1: "result_of (main ?M1 ()) = Inr ()"
    by (rule succeeds_unit, rule succeeds_main[where p="''/mingw64/lib/pkgconfig''"]) simp_all
  have ok2: "result_of (main ?M2 ()) = Inr ()"
    by (rule succeeds_unit, rule succeeds_main[where p="''/mingw64/lib/pkgconfig''"]) simp_all
  from main_commands[OF ok1] obtain pre p where
    "commands (trace_of (main ?M1 ())) = pre @ library_commands ?M1 [?su] @ [ardour_command ?M1 p]"
    by auto
  then have first: "?su \<in> set (commands (trace_of (main ?M1 ())))"
    by (simp add: library_commands_def)
  from second_run_commands[OF second_machine(1) second_machine(2) second_machine(3) ok2]
  obtain p2 where
    "commands (trace_of (main ?M2 ()))
       = pacman_query # library_commands ?M2 [] @ [ardour_command ?M2 p2]"
    by auto
  then have second: "?su \<notin> set (commands (trace_of (main ?M2 ())))"
    by (simp add: library_commands_def first_libraries_def meson_steps_def
        ardour_command_def waf_command_def autogen_command_def make_install_def
        meson_command_def pacman_query_def)
  from ok1 ok2 first second second_machine(1)[of msys_env 0 installed_text]
    second_machine(3)[of msys_env True 0]
  show ?thesis by simp
qed

end
